theory Spec2Isabelle
  imports Main "HOL-Library.Word"
begin

section \<open>Data model (main.cpp, lines 28-59)\<close>

text \<open>
  The controller is an ESP8266: \<open>int\<close> and \<open>long\<close> are 32 bits wide, \<open>int16_t\<close> and
  \<open>uint16_t\<close> are 16 bits wide. Fixed-width fields are words; a signed field is read
  with \<open>sint\<close>, an unsigned one with \<open>uint\<close>.
\<close>

record RoombaState =
  distance :: "16 word"       \<comment> \<open>int16_t\<close>
  chargingState :: "8 word"   \<comment> \<open>uint8_t\<close>
  voltage :: "16 word"        \<comment> \<open>uint16_t\<close>
  current :: "16 word"        \<comment> \<open>int16_t\<close>
  charge :: "16 word"         \<comment> \<open>int16_t\<close>
  capacity :: "16 word"       \<comment> \<open>uint16_t\<close>
  cleaning :: bool
  docked :: bool
  timestamp :: "32 word"      \<comment> \<open>int\<close>
  sent :: bool

text \<open>\<open>RoombaState roombaState = {}\<close> and \<open>RoombaState rs = {}\<close>: every field zero.\<close>

definition RoombaState_zero :: RoombaState where
  "RoombaState_zero =
     \<lparr>distance = 0, chargingState = 0, voltage = 0, current = 0, charge = 0, capacity = 0,
      cleaning = False, docked = False, timestamp = 0, sent = False\<rparr>"

text \<open>
  Modelled from the spec: the packet IDs of \<open>Roomba.h\<close>, a library header outside the
  repository. Section 4.1 of the specification fixes 19, 21, 22, 23, 25, 26 and 128; the
  comment next to each \<open>case\<close> label of the decoder gives the others.
\<close>

abbreviation (input) Sensors7to26 :: "8 word" where "Sensors7to26 \<equiv> 0"
abbreviation (input) Sensors7to16 :: "8 word" where "Sensors7to16 \<equiv> 1"
abbreviation (input) SensorBumpsAndWheelDrops :: "8 word" where "SensorBumpsAndWheelDrops \<equiv> 7"
abbreviation (input) SensorVirtualWall :: "8 word" where "SensorVirtualWall \<equiv> 13"
abbreviation (input) SensorDistance :: "8 word" where "SensorDistance \<equiv> 19"
abbreviation (input) SensorChargingState :: "8 word" where "SensorChargingState \<equiv> 21"
abbreviation (input) SensorVoltage :: "8 word" where "SensorVoltage \<equiv> 22"
abbreviation (input) SensorCurrent :: "8 word" where "SensorCurrent \<equiv> 23"
abbreviation (input) SensorBatteryCharge :: "8 word" where "SensorBatteryCharge \<equiv> 25"
abbreviation (input) SensorBatteryCapacity :: "8 word" where "SensorBatteryCapacity \<equiv> 26"

text \<open>The IDs for which the decoder's \<open>switch\<close> has a \<open>case\<close> label.\<close>

definition known_ids :: "8 word set" where
  "known_ids = {0, 1, 13, 19, 21, 22, 23, 25, 26, 7, 128}"

section \<open>The packet decoder (main.cpp, lines 308-359)\<close>

text \<open>
  \<open>packet\<close> is the memory that can be read through the pointer the decoder receives
  (for the only caller, the 100 bytes of \<open>roombaPacket\<close>); \<open>len\<close> is the declared length,
  a C \<open>int\<close>. A read outside that memory is undefined behaviour in C: it is the value
  \<open>None\<close> of \<open>read_byte\<close> and the outcome \<open>OutOfBuffer\<close> of an entry.
\<close>

definition read_byte :: "8 word list \<Rightarrow> nat \<Rightarrow> 8 word option" where
  "read_byte packet i = (if i < length packet then Some (packet ! i) else None)"

text \<open>
  \<open>packet[i+1] * 256 + packet[i+2]\<close>: both bytes are promoted to \<open>int\<close>, the sum lies in
  0..65535 and is stored into a 16-bit field, which keeps its low 16 bits.
\<close>

definition be16 :: "8 word \<Rightarrow> 8 word \<Rightarrow> 16 word" where
  "be16 hi lo = word_of_int (uint hi * 256 + uint lo)"

definition read_be16 :: "8 word list \<Rightarrow> nat \<Rightarrow> 16 word option" where
  "read_be16 packet i =
     (case read_byte packet (i + 1) of
        None \<Rightarrow> None
      | Some hi \<Rightarrow> (case read_byte packet (i + 2) of
                     None \<Rightarrow> None
                   | Some lo \<Rightarrow> Some (be16 hi lo)))"

datatype entry =
    Unhandled                 \<comment> \<open>the \<open>default\<close> label: \<open>return false\<close>\<close>
  | OutOfBuffer               \<comment> \<open>a read outside the memory behind \<open>packet\<close>\<close>
  | Advance nat RoombaState   \<comment> \<open>\<open>break\<close> with the new \<open>i\<close> and \<open>*state\<close>\<close>

text \<open>One pass through the \<open>switch\<close> at index \<open>i\<close>, the \<open>case\<close> labels in source order.\<close>

definition decode_entry :: "8 word list \<Rightarrow> nat \<Rightarrow> RoombaState \<Rightarrow> entry" where
  "decode_entry packet i state =
     (case read_byte packet i of
        None \<Rightarrow> OutOfBuffer
      | Some pid \<Rightarrow>
          if pid = Sensors7to26 then Advance (i + 27) state
          else if pid = Sensors7to16 then Advance (i + 11) state
          else if pid = SensorVirtualWall then Advance (i + 2) state
          else if pid = SensorDistance then
            (case read_be16 packet i of
               None \<Rightarrow> OutOfBuffer
             | Some v \<Rightarrow> Advance (i + 3) (state\<lparr>distance := v\<rparr>))
          else if pid = SensorChargingState then
            (case read_byte packet (i + 1) of
               None \<Rightarrow> OutOfBuffer
             | Some v \<Rightarrow> Advance (i + 2) (state\<lparr>chargingState := v\<rparr>))
          else if pid = SensorVoltage then
            (case read_be16 packet i of
               None \<Rightarrow> OutOfBuffer
             | Some v \<Rightarrow> Advance (i + 3) (state\<lparr>voltage := v\<rparr>))
          else if pid = SensorCurrent then
            (case read_be16 packet i of
               None \<Rightarrow> OutOfBuffer
             | Some v \<Rightarrow> Advance (i + 3) (state\<lparr>current := v\<rparr>))
          else if pid = SensorBatteryCharge then
            (case read_be16 packet i of
               None \<Rightarrow> OutOfBuffer
             | Some v \<Rightarrow> Advance (i + 3) (state\<lparr>charge := v\<rparr>))
          else if pid = SensorBatteryCapacity then
            (case read_be16 packet i of
               None \<Rightarrow> OutOfBuffer
             | Some v \<Rightarrow> Advance (i + 3) (state\<lparr>capacity := v\<rparr>))
          else if pid = SensorBumpsAndWheelDrops then Advance (i + 2) state
          else if pid = 128 then Advance (i + 2) state
          else Unhandled)"

text \<open>
  The \<open>while (i < length)\<close> loop. The result is \<open>None\<close> when the loop reads outside the
  memory behind \<open>packet\<close>, and otherwise the returned flag with the final \<open>*state\<close>.
\<close>

function parse_loop ::
  "8 word list \<Rightarrow> int \<Rightarrow> nat \<Rightarrow> RoombaState \<Rightarrow> (bool \<times> RoombaState) option" where
  "parse_loop packet len i state =
     (if int i < len then
        (case decode_entry packet i state of
           Advance i' state' \<Rightarrow> parse_loop packet len i' state'
         | Unhandled \<Rightarrow> Some (False, state)
         | OutOfBuffer \<Rightarrow> None)
      else Some (True, state))"
  by pat_completeness auto
termination
  by (relation "measure (\<lambda>(packet, len, i, state). nat (len - int i))")
     (auto simp: decode_entry_def split: option.splits if_splits)

declare parse_loop.simps [simp del]

text \<open>
  The scan positions: the values of \<open>i\<close> with which the loop, started at \<open>i\<close>, enters
  the \<open>switch\<close>. The index an entry advances to does not depend on \<open>*state\<close>.
\<close>

function scan_positions :: "8 word list \<Rightarrow> int \<Rightarrow> nat \<Rightarrow> nat list" where
  "scan_positions packet len i =
     (if int i < len then
        i # (case decode_entry packet i RoombaState_zero of
               Advance i' state' \<Rightarrow> scan_positions packet len i'
             | Unhandled \<Rightarrow> []
             | OutOfBuffer \<Rightarrow> [])
      else [])"
  by pat_completeness auto
termination
  by (relation "measure (\<lambda>(packet, len, i). nat (len - int i))")
     (auto simp: decode_entry_def split: option.splits if_splits)

declare scan_positions.simps [simp del]

text \<open>\<open>now\<close> is the value \<open>millis()\<close> returns at line 309, converted to \<open>int\<close>.\<close>

definition parseRoombaStateFromStreamPacket ::
  "8 word list \<Rightarrow> int \<Rightarrow> 32 word \<Rightarrow> RoombaState \<Rightarrow> (bool \<times> RoombaState) option" where
  "parseRoombaStateFromStreamPacket packet len now state =
     parse_loop packet len 0 (state\<lparr>timestamp := now\<rparr>)"

section \<open>Reading a sensor packet (main.cpp, lines 369-390)\<close>

text \<open>
  \<open>roomba.pollSensors\<close> is library code outside the repository. What it hands to
  \<open>readSensorPacket\<close> is a parameter: the flag it returns, the contents of
  \<open>roombaPacket\<close> after the call and the \<open>uint8_t\<close> length it stores.
  The verbose diagnostics (\<open>VLOG\<close>, \<open>verboseLogPacket\<close>) are not modelled.
\<close>

record poll =
  received :: bool
  roombaPacket :: "8 word list"
  packetLength :: "8 word"

text \<open>Lines 379-385: the estimate of \<open>cleaning\<close> and \<open>docked\<close> from the current.\<close>

definition estimate :: "RoombaState \<Rightarrow> RoombaState" where
  "estimate rs =
     (let rs1 = rs\<lparr>cleaning := False, docked := False\<rparr> in
      if sint (current rs1) < - 400 then rs1\<lparr>cleaning := True\<rparr>
      else if sint (current rs1) > - 50 then rs1\<lparr>docked := True\<rparr>
      else rs1)"

text \<open>
  \<open>readSensorPacket p now st\<close> is the new value of the global \<open>roombaState\<close>, whose
  value before the call is \<open>st\<close>, or \<open>None\<close> when the decoder read outside the buffer.
\<close>

definition readSensorPacket :: "poll \<Rightarrow> 32 word \<Rightarrow> RoombaState \<Rightarrow> RoombaState option" where
  "readSensorPacket p now st =
     (if received p then
        (case parseRoombaStateFromStreamPacket (roombaPacket p) (uint (packetLength p)) now
                RoombaState_zero of
           None \<Rightarrow> None
         | Some (parsed, rs) \<Rightarrow>
             if parsed then Some (estimate rs) else Some st)
      else Some st)"

section \<open>Device and network actions\<close>

text \<open>
  Calls that leave the program (pins, serial line, Roomba library, MQTT client, debug log)
  are recorded in order as a list of actions. \<open>BRC_PIN\<close> is the only pin written. A
  \<open>DLOG\<close> carries its format string without the trailing newline.
\<close>

datatype pin_mode = INPUT | OUTPUT

record status_json =
  battery_level :: int
  json_cleaning :: bool
  json_docked :: bool
  charging :: bool
  json_voltage :: int
  json_current :: int
  json_charge :: int
  json_state :: string

datatype action =
    DLOG string
  | PinMode pin_mode               \<comment> \<open>\<open>pinMode(BRC_PIN, _)\<close>\<close>
  | DigitalWriteLow                \<comment> \<open>\<open>digitalWrite(BRC_PIN, LOW)\<close>\<close>
  | Delay nat                      \<comment> \<open>\<open>delay(ms)\<close>\<close>
  | SerialWrite "8 word"           \<comment> \<open>\<open>Serial.write(byte)\<close>\<close>
  | ReadADC nat                    \<comment> \<open>\<open>readADC(samples)\<close>\<close>
  | Roomba_cover
  | Roomba_power
  | Roomba_spot
  | Roomba_dock
  | Roomba_safeMode
  | Roomba_playSong nat
  | Roomba_stream "8 word list"
  | Roomba_streamCommandPause
  | Roomba_streamCommandResume
  | Roomba_reset
  | Roomba_setDayTime              \<comment> \<open>\<open>roomba.setDayTime\<close> with the local day, hour and minute\<close>
  | ConfigTime                     \<comment> \<open>\<open>configTime(0, 0, NTP_SERVER_1, NTP_SERVER_2)\<close>\<close>
  | SerialBegin nat                \<comment> \<open>\<open>Serial.begin(baud)\<close>\<close>
  | Publish_hello                  \<comment> \<open>\<open>mqttClient.publish("vacuum/hello", "hello there")\<close>\<close>
  | Mqtt_connect
  | Mqtt_subscribe                 \<comment> \<open>to the command topic\<close>
  | Publish_config                 \<comment> \<open>the device descriptor, to the config topic\<close>
  | Publish_state status_json      \<comment> \<open>the status of \<open>sendStatus\<close>, to the state topic\<close>
  | Publish_low_battery            \<comment> \<open>the synthetic status of \<open>sleepIfNecessary\<close>\<close>
  | DeepSleep nat                  \<comment> \<open>\<open>ESP.deepSleep(us)\<close>\<close>

text \<open>The array \<open>sensors\<close> of lines 52-59.\<close>

definition sensors :: "8 word list" where
  "sensors = [SensorDistance, SensorChargingState, SensorVoltage, SensorCurrent,
              SensorBatteryCharge, SensorBatteryCapacity]"

section \<open>The command translator (main.cpp, lines 76-191)\<close>

definition wakeup :: "action list" where
  "wakeup = [DLOG ''Wakeup Roomba'', PinMode OUTPUT, DigitalWriteLow, Delay 200,
             PinMode INPUT, Delay 200, SerialWrite 128]"

text \<open>
  A \<open>const char *\<close> argument is given by the characters before its terminating NUL.
  \<open>c_str\<close> is what a C string read sees of a byte sequence that is followed by a NUL.
\<close>

definition c_str :: "string \<Rightarrow> string" where
  "c_str bytes = takeWhile (\<lambda>c. c \<noteq> CHR 0x00) bytes"

definition vocabulary :: "string set" where
  "vocabulary = {''turn_on'', ''turn_off'', ''start'', ''pause'', ''stop'', ''clean_spot'',
                 ''locate'', ''return_to_base''}"

text \<open>
  \<open>performCommand cmd st\<close>: the returned flag, the new value of the global \<open>roombaState\<close>
  (\<open>st\<close> before the call) and the actions in the order they are issued.
\<close>

definition performCommand :: "string \<Rightarrow> RoombaState \<Rightarrow> bool \<times> RoombaState \<times> action list" where
  "performCommand cmd st =
     (if cmd = ''turn_on'' then
        (True, st\<lparr>cleaning := True\<rparr>, wakeup @ [DLOG ''Turning on'', Roomba_cover])
      else if cmd = ''turn_off'' then
        (True, st\<lparr>cleaning := False\<rparr>, wakeup @ [DLOG ''Turning off'', Roomba_power])
      else if cmd = ''start'' \<or> cmd = ''pause'' then
        (True, st, wakeup @ [DLOG ''Toggling'', Roomba_cover])
      else if cmd = ''stop'' then
        (if cleaning st then (True, st, wakeup @ [DLOG ''Stopping'', Roomba_cover])
         else (True, st, wakeup @ [DLOG ''Not cleaning, can't stop'']))
      else if cmd = ''clean_spot'' then
        (True, st\<lparr>cleaning := True\<rparr>, wakeup @ [DLOG ''Cleaning Spot'', Roomba_spot])
      else if cmd = ''locate'' then
        (True, st, wakeup @ [DLOG ''Playing song #0'', Roomba_safeMode, Delay 50,
                             Roomba_playSong 0, Delay 4000, Roomba_playSong 1, Delay 4000,
                             Roomba_playSong 2, Delay 3500, Roomba_playSong 3])
      else if cmd = ''return_to_base'' then
        (True, st\<lparr>cleaning := True\<rparr>, wakeup @ [DLOG ''Returning to Base'', Roomba_dock])
      else (False, st, wakeup))"

text \<open>
  \<open>mqttCallback\<close>: \<open>command_topic\<close> is the string \<open>getMQTTTopic(commandTopic)\<close> builds from
  the macros of \<open>config.h\<close> and the MAC address; \<open>payload\<close> holds the \<open>length\<close> bytes of the
  message. The callback copies them, appends a NUL and passes the copy as a C string.
\<close>

definition mqttCallback ::
  "string \<Rightarrow> string \<Rightarrow> string \<Rightarrow> RoombaState \<Rightarrow> RoombaState \<times> action list" where
  "mqttCallback command_topic topic payload st =
     (if command_topic = topic then
        (case performCommand (c_str payload) st of
           (ok, st', acts) \<Rightarrow>
             (st', [DLOG ''Received mqtt callback for topic %s''] @ acts @
                   (if \<not> ok then [DLOG ''Unknown command %s''] else [])))
      else (st, [DLOG ''Received mqtt callback for topic %s'']))"

section \<open>Publishing the status (main.cpp, lines 497-525)\<close>

text \<open>
  The quotient of C's \<open>/\<close> on \<open>int\<close>: truncated towards zero, and undefined (\<open>None\<close>) for a
  zero divisor.
\<close>

definition c_div :: "int \<Rightarrow> int \<Rightarrow> int option" where
  "c_div a b = (if b = 0 then None else Some (sgn a * sgn b * (\<bar>a\<bar> div \<bar>b\<bar>)))"

text \<open>
  Modelled from the spec: the charging states of \<open>Roomba.h\<close>, numbered in the order of the
  enumeration in section 3 of the specification (NotCharging = 0).
\<close>

abbreviation (input) ChargeStateReconditioningCharging :: "8 word" where
  "ChargeStateReconditioningCharging \<equiv> 1"
abbreviation (input) ChargeStateFullCharging :: "8 word" where
  "ChargeStateFullCharging \<equiv> 2"
abbreviation (input) ChargeStateTrickleCharging :: "8 word" where
  "ChargeStateTrickleCharging \<equiv> 3"

text \<open>
  \<open>sendStatus connected st\<close>: \<open>connected\<close> is what \<open>mqttClient.connected()\<close> returns. The
  operands of \<open>(roombaState.charge * 100)/roombaState.capacity\<close> are promoted to \<open>int\<close>.
  The result is \<open>None\<close> when the division is undefined.
\<close>

definition sendStatus :: "bool \<Rightarrow> RoombaState \<Rightarrow> action list option" where
  "sendStatus connected st =
     (if \<not> connected then Some [DLOG ''MQTT Disconnected, not sending status'']
      else
        (case c_div (sint (charge st) * 100) (uint (capacity st)) of
           None \<Rightarrow> None
         | Some level \<Rightarrow>
             Some [DLOG ''Reporting status: %s'',
                   Publish_state
                     \<lparr>battery_level = level,
                      json_cleaning = cleaning st,
                      json_docked = docked st,
                      charging = (chargingState st = ChargeStateReconditioningCharging
                                  \<or> chargingState st = ChargeStateFullCharging
                                  \<or> chargingState st = ChargeStateTrickleCharging),
                      json_voltage = uint (voltage st),
                      json_current = sint (current st),
                      json_charge = sint (charge st),
                      json_state = (if docked st then ''docked''
                                    else if cleaning st then ''cleaning'' else ''idle'')\<rparr>]))"

section \<open>The scheduler (main.cpp, lines 86-97, 206-306, 392-397, 454-495, 527-591)\<close>

text \<open>The macros of \<open>config.h\<close> (not in the repository) that select code are parameters.\<close>

record config =
  ENABLE_ADC_SLEEP :: bool
  ROOMBA_650_SLEEP_FIX :: bool

text \<open>The global variables written by \<open>loop\<close> and the callbacks.\<close>

record globals =
  roombaState :: RoombaState
  lastStateMsgTime :: "32 word"
  lastWakeupTime :: "32 word"
  lastConnectTime :: "32 word"
  configLoop :: "32 word"
  OTAStarted :: bool

definition globals_init :: globals where
  "globals_init =
     \<lparr>roombaState = RoombaState_zero, lastStateMsgTime = 0, lastWakeupTime = 0,
      lastConnectTime = 0, configLoop = 0, OTAStarted = False\<rparr>"

text \<open>
  What the outside world supplies to one pass of \<open>loop\<close>: the clock at line 543, the state
  of the MQTT link (\<open>mqttClient.connected()\<close>) and the result of a connection attempt
  (the link is taken to stay as it is during one pass, except through \<open>reconnect\<close>),
  whether \<open>readADC(10) < 10800\<close> holds (a floating-point comparison), the result of
  \<open>roomba.pollSensors\<close> and the clock at line 309.
\<close>

record environment =
  millis_loop :: "32 word"
  connected :: bool
  connect_ok :: bool
  battery_low :: bool
  polled :: poll
  millis_parse :: "32 word"

text \<open>
  A pass or a callback either is undefined in C (a read outside the packet buffer, a
  division by zero), or ends in \<open>ESP.deepSleep\<close>, which does not return, or never leaves
  the wait loop of \<open>setDateTime\<close> (after the recorded actions it repeats \<open>delay(500)\<close> for
  ever), or completes.
\<close>

datatype 'a outcome =
    Undefined
  | Asleep "action list"
  | Blocked "action list"
  | Continue 'a "action list"

definition wakeOnDock :: "config \<Rightarrow> action list" where
  "wakeOnDock cfg =
     [DLOG ''Wakeup Roomba on dock''] @ wakeup @
     (if ROOMBA_650_SLEEP_FIX cfg
      then [Delay 10, SerialWrite 135, Delay 150, SerialWrite 143] else [])"

definition reconnect :: "bool \<Rightarrow> action list" where
  "reconnect ok =
     [DLOG ''Attempting MQTT connection...'', Mqtt_connect] @
     (if ok then [DLOG ''MQTT connected'', Mqtt_subscribe]
      else [DLOG ''MQTT failed rc=%d try again in 5 seconds''])"

definition sendConfig :: "bool \<Rightarrow> action list" where
  "sendConfig link =
     (if \<not> link then [DLOG ''MQTT Disconnected, not sending config'']
      else [DLOG ''Reporting config: %s'', Publish_config])"

text \<open>\<open>sleepIfNecessary\<close>: the actions, and whether the controller went to deep sleep.\<close>

definition sleepIfNecessary :: "config \<Rightarrow> bool \<Rightarrow> bool \<Rightarrow> action list \<times> bool" where
  "sleepIfNecessary cfg low link =
     (if ENABLE_ADC_SLEEP cfg then
        (if low then
           ([ReadADC 10, DLOG ''Battery voltage is low (%.1fV). Sleeping for 10 minutes''] @
            (if link then [Publish_low_battery] else []) @
            [Delay 200, DeepSleep 600000000], True)
         else ([ReadADC 10], False))
      else ([], False))"

text \<open>
  Lines 545-560. The differences of clock values are 32-bit subtractions compared as
  signed numbers. The second component is the state of the MQTT link afterwards.
\<close>

definition connect_block :: "environment \<Rightarrow> globals \<Rightarrow> globals \<times> bool \<times> action list" where
  "connect_block env g =
     (let now = millis_loop env in
      if sint (now - lastConnectTime g) > 30000 then
        (let g1 = g\<lparr>lastConnectTime := now\<rparr> in
         if \<not> connected env then
           (g1, connect_ok env,
            [DLOG ''Reconnecting MQTT''] @ reconnect (connect_ok env) @ sendConfig (connect_ok env))
         else if configLoop g1 = 19 then
           (g1\<lparr>configLoop := 0\<rparr>, connected env, sendConfig (connected env))
         else (g1\<lparr>configLoop := configLoop g1 + 1\<rparr>, connected env, []))
      else (g, connected env, []))"

text \<open>Lines 562-574.\<close>

definition wake_block :: "config \<Rightarrow> environment \<Rightarrow> globals \<Rightarrow> globals \<times> action list" where
  "wake_block cfg env g =
     (let now = millis_loop env in
      if sint (now - lastWakeupTime g) > 50000 then
        (g\<lparr>lastWakeupTime := now\<rparr>,
         if \<not> cleaning (roombaState g) then
           (if docked (roombaState g) then wakeOnDock cfg else wakeup)
         else wakeup)
      else (g, []))"

text \<open>Lines 576-587, with \<open>link\<close> the state of the MQTT link.\<close>

definition publish_block :: "config \<Rightarrow> environment \<Rightarrow> bool \<Rightarrow> globals \<Rightarrow> globals outcome" where
  "publish_block cfg env link g =
     (let now = millis_loop env in
      if sint (now - lastStateMsgTime g) > 10000 then
        (let g1 = g\<lparr>lastStateMsgTime := now\<rparr> in
         case (if sint (now - timestamp (roombaState g1)) > 30000 \<or> sent (roombaState g1) then
                 Some (g1, [DLOG ''Roomba state already sent (%.1fs old)'',
                            DLOG ''Request stream'', Roomba_stream sensors])
               else
                 (case sendStatus link (roombaState g1) of
                    None \<Rightarrow> None
                  | Some acts \<Rightarrow>
                      Some (g1\<lparr>roombaState := (roombaState g1)\<lparr>sent := True\<rparr>\<rparr>, acts)))
         of
           None \<Rightarrow> Undefined
         | Some (g2, acts) \<Rightarrow>
             (case sleepIfNecessary cfg (battery_low env) link of
                (sleep_acts, asleep) \<Rightarrow>
                  if asleep then Asleep (acts @ sleep_acts)
                  else Continue g2 (acts @ sleep_acts)))
      else Continue g [])"

text \<open>
  One pass of \<open>loop\<close> from line 538 on. The library calls \<open>ArduinoOTA.handle()\<close>,
  \<open>Debug.handle()\<close> and \<open>mqttClient.loop()\<close> reach this program only through its callbacks,
  which are events of their own below.
\<close>

definition loop :: "config \<Rightarrow> environment \<Rightarrow> globals \<Rightarrow> globals outcome" where
  "loop cfg env g =
     (if OTAStarted g then Continue g []
      else
        (case connect_block env g of
           (g1, link, acts1) \<Rightarrow>
             (case wake_block cfg env g1 of
                (g2, acts2) \<Rightarrow>
                  (case publish_block cfg env link g2 of
                     Undefined \<Rightarrow> Undefined
                   | Asleep acts3 \<Rightarrow> Asleep (acts1 @ acts2 @ acts3)
                   | Blocked acts3 \<Rightarrow> Blocked (acts1 @ acts2 @ acts3)
                   | Continue g3 acts3 \<Rightarrow>
                       (case readSensorPacket (polled env) (millis_parse env) (roombaState g3) of
                          None \<Rightarrow> Undefined
                        | Some st \<Rightarrow>
                            Continue (g3\<lparr>roombaState := st\<rparr>) (acts1 @ acts2 @ acts3))))))"

definition onOTAStart :: "globals \<Rightarrow> globals \<times> action list" where
  "onOTAStart g =
     (g\<lparr>OTAStarted := True\<rparr>,
      [DLOG ''Starting OTA session'', DLOG ''Pause streaming'', Roomba_streamCommandPause])"

text \<open>
  \<open>setDateTime\<close> (lines 206-215). The clock it polls belongs to the outside world:
  \<open>ntp\<close> is the number of rounds of the wait loop after which \<open>time(nullptr)\<close> is valid, or
  \<open>None\<close> when it never is. The result is the actions and whether the function returns.
\<close>

definition setDateTime :: "nat option \<Rightarrow> action list \<times> bool" where
  "setDateTime ntp =
     (case ntp of
        None \<Rightarrow> ([ConfigTime], False)
      | Some rounds \<Rightarrow> ([ConfigTime] @ replicate rounds (Delay 500) @ [Roomba_setDayTime], True))"

text \<open>
  \<open>debugCallback\<close> (lines 217-276) for the command \<open>cmd\<close> that \<open>Debug.getLastCommand()\<close>
  returns: \<open>performCommand\<close> first, and the console's own commands when it fails.
\<close>

definition debugCallback :: "string \<Rightarrow> nat option \<Rightarrow> RoombaState \<Rightarrow> RoombaState outcome" where
  "debugCallback cmd ntp st =
     (case performCommand cmd st of
        (ok, st', acts) \<Rightarrow>
          if ok then Continue st' acts
          else if cmd = ''quit'' then
            Continue st' (acts @ [DLOG ''Stopping Roomba'', SerialWrite 173])
          else if cmd = ''rreset'' then
            Continue st' (acts @ [DLOG ''Resetting Roomba'', Roomba_reset])
          else if cmd = ''mqtthello'' then Continue st' (acts @ [Publish_hello])
          else if cmd = ''version'' then Continue st' (acts @ [DLOG ''Compiled on: %s''])
          else if cmd = ''baud115200'' then
            Continue st' (acts @ [DLOG ''Setting baud to 115200'', SerialBegin 115200, Delay 100])
          else if cmd = ''baud19200'' then
            Continue st' (acts @ [DLOG ''Setting baud to 19200'', SerialBegin 19200, Delay 100])
          else if cmd = ''baud57600'' then
            Continue st' (acts @ [DLOG ''Setting baud to 57600'', SerialBegin 57600, Delay 100])
          else if cmd = ''baud38400'' then
            Continue st' (acts @ [DLOG ''Setting baud to 38400'', SerialBegin 38400, Delay 100])
          else if cmd = ''sleep5'' then
            Asleep (acts @ [DLOG ''Going to sleep for 5 seconds'', Delay 100, DeepSleep 5000000])
          else if cmd = ''wake'' then Continue st' (acts @ [DLOG ''Toggle BRC pin''] @ wakeup)
          else if cmd = ''readadc'' then
            Continue st' (acts @ [ReadADC 10, DLOG ''ADC voltage is %.1fmV''])
          else if cmd = ''streamresume'' then
            Continue st' (acts @ [DLOG ''Resume streaming'', Roomba_streamCommandResume])
          else if cmd = ''streampause'' then
            Continue st' (acts @ [DLOG ''Pause streaming'', Roomba_streamCommandPause])
          else if cmd = ''stream'' then
            Continue st' (acts @ [DLOG ''Requesting stream'', Roomba_stream sensors])
          else if cmd = ''streamreset'' then
            Continue st' (acts @ [DLOG ''Resetting stream'', Roomba_stream []])
          else if cmd = ''time'' then
            (case setDateTime ntp of
               (time_acts, returns) \<Rightarrow>
                 if returns then Continue st' (acts @ time_acts) else Blocked (acts @ time_acts))
          else Continue st' (acts @ [DLOG ''Unknown command %s'']))"

text \<open>
  The entry points of the program after \<open>setup\<close>: a pass of \<open>loop\<close>, an MQTT message
  (\<open>mqttCallback\<close>), a command typed at the debug console (\<open>debugCallback\<close>) and the start
  of an OTA update (\<open>onOTAStart\<close>).
\<close>

datatype event =
    Loop environment
  | MqttMessage string string         \<comment> \<open>topic and payload\<close>
  | DebugCommand string "nat option"  \<comment> \<open>the command, and the clock of \<open>setDateTime\<close>\<close>
  | OTAStart

fun step :: "config \<Rightarrow> string \<Rightarrow> event \<Rightarrow> globals \<Rightarrow> globals outcome" where
  "step cfg command_topic (Loop env) g = loop cfg env g"
| "step cfg command_topic (MqttMessage topic payload) g =
     (case mqttCallback command_topic topic payload (roombaState g) of
        (st, acts) \<Rightarrow> Continue (g\<lparr>roombaState := st\<rparr>) acts)"
| "step cfg command_topic (DebugCommand cmd ntp) g =
     (case debugCallback cmd ntp (roombaState g) of
        Undefined \<Rightarrow> Undefined
      | Asleep acts \<Rightarrow> Asleep acts
      | Blocked acts \<Rightarrow> Blocked acts
      | Continue st acts \<Rightarrow> Continue (g\<lparr>roombaState := st\<rparr>) acts)"
| "step cfg command_topic OTAStart g =
     (case onOTAStart g of (g', acts) \<Rightarrow> Continue g' acts)"

fun run :: "config \<Rightarrow> string \<Rightarrow> event list \<Rightarrow> globals \<Rightarrow> globals outcome" where
  "run cfg command_topic [] g = Continue g []"
| "run cfg command_topic (e # es) g =
     (case step cfg command_topic e g of
        Undefined \<Rightarrow> Undefined
      | Asleep acts \<Rightarrow> Asleep acts
      | Blocked acts \<Rightarrow> Blocked acts
      | Continue g' acts \<Rightarrow>
          (case run cfg command_topic es g' of
             Undefined \<Rightarrow> Undefined
           | Asleep acts' \<Rightarrow> Asleep (acts @ acts')
           | Blocked acts' \<Rightarrow> Blocked (acts @ acts')
           | Continue g'' acts' \<Rightarrow> Continue g'' (acts @ acts')))"

text \<open>The statuses that \<open>sendStatus\<close> published in a list of actions.\<close>

fun published :: "action list \<Rightarrow> status_json list" where
  "published [] = []"
| "published (Publish_state m # acts) = m # published acts"
| "published (a # acts) = published acts"

text \<open>The actions of an outcome; nothing is recorded for an undefined pass.\<close>

fun actions_of :: "'a outcome \<Rightarrow> action list" where
  "actions_of Undefined = []"
| "actions_of (Asleep acts) = acts"
| "actions_of (Blocked acts) = acts"
| "actions_of (Continue g acts) = acts"

text \<open>
  A pass of \<open>loop\<close> is quiet when its poll delivers nothing or a packet the decoder
  rejects; every other event is quiet.
\<close>

fun quiet :: "event \<Rightarrow> bool" where
  "quiet (Loop env) =
     (if received (polled env) then
        (case parseRoombaStateFromStreamPacket (roombaPacket (polled env))
                (uint (packetLength (polled env))) (millis_parse env) RoombaState_zero of
           Some (parsed, rs) \<Rightarrow> \<not> parsed
         | None \<Rightarrow> False)
      else True)"
| "quiet ev = True"

text \<open>
  \<open>millis()\<close> counts milliseconds modulo \<open>2 ^ 32\<close>. The age in milliseconds, at clock
  value \<open>now\<close>, of a sample that was decoded less than \<open>2 ^ 32\<close> ms (49.7 days) before.
\<close>

definition sample_age :: "32 word \<Rightarrow> RoombaState \<Rightarrow> int" where
  "sample_age now st = uint (now - timestamp st)"

section \<open>Sequences of decodes and command translations\<close>

datatype op =
    Decode poll "32 word"   \<comment> \<open>a call of \<open>readSensorPacket\<close>\<close>
  | Translate string        \<comment> \<open>a call of \<open>performCommand\<close>\<close>

fun apply_op :: "op \<Rightarrow> RoombaState \<Rightarrow> RoombaState option" where
  "apply_op (Decode p now) st = readSensorPacket p now st"
| "apply_op (Translate cmd) st = Some (fst (snd (performCommand cmd st)))"

fun apply_ops :: "op list \<Rightarrow> RoombaState \<Rightarrow> RoombaState option" where
  "apply_ops [] st = Some st"
| "apply_ops (x # xs) st =
     (case apply_op x st of None \<Rightarrow> None | Some st' \<Rightarrow> apply_ops xs st')"

text \<open>The command tokens that set \<open>cleaning\<close>.\<close>

fun sets_cleaning :: "op \<Rightarrow> bool" where
  "sets_cleaning (Translate cmd) =
     (cmd = ''turn_on'' \<or> cmd = ''clean_spot'' \<or> cmd = ''return_to_base'')"
| "sets_cleaning (Decode p now) = False"

text \<open>
  Every token that sets \<open>cleaning\<close> is issued in a state whose \<open>docked\<close> is false, along
  the sequence of operations started in \<open>st\<close>.
\<close>

fun issued_off_dock :: "op list \<Rightarrow> RoombaState \<Rightarrow> bool" where
  "issued_off_dock [] st = True"
| "issued_off_dock (x # xs) st =
     ((if sets_cleaning x then \<not> docked st else True) \<and>
      (case apply_op x st of None \<Rightarrow> True | Some st' \<Rightarrow> issued_off_dock xs st'))"

section \<open>An encoder for sensor packets\<close>

text \<open>
  Modelled from the spec: an encoder of sensor packets, which the repository does not
  have. By section 4.1 and the glossary of the specification a sensor packet is a sequence
  of entries, each a one-byte ID followed by its fixed-width value; 16-bit values are
  big-endian, and the charging state is one byte.
\<close>

datatype reading =
    Distance "16 word"
  | ChargingState "8 word"
  | Voltage "16 word"
  | Current "16 word"
  | BatteryCharge "16 word"
  | BatteryCapacity "16 word"

definition hi_byte :: "16 word \<Rightarrow> 8 word" where
  "hi_byte v = ucast (drop_bit 8 v)"

definition lo_byte :: "16 word \<Rightarrow> 8 word" where
  "lo_byte v = ucast v"

fun encode_reading :: "reading \<Rightarrow> 8 word list" where
  "encode_reading (Distance v) = [SensorDistance, hi_byte v, lo_byte v]"
| "encode_reading (ChargingState v) = [SensorChargingState, v]"
| "encode_reading (Voltage v) = [SensorVoltage, hi_byte v, lo_byte v]"
| "encode_reading (Current v) = [SensorCurrent, hi_byte v, lo_byte v]"
| "encode_reading (BatteryCharge v) = [SensorBatteryCharge, hi_byte v, lo_byte v]"
| "encode_reading (BatteryCapacity v) = [SensorBatteryCapacity, hi_byte v, lo_byte v]"

definition encode :: "reading list \<Rightarrow> 8 word list" where
  "encode rs = concat (map encode_reading rs)"

text \<open>The typed value of a reading, stored in the field of its ID.\<close>

fun store :: "reading \<Rightarrow> RoombaState \<Rightarrow> RoombaState" where
  "store (Distance v) st = st\<lparr>distance := v\<rparr>"
| "store (ChargingState v) st = st\<lparr>chargingState := v\<rparr>"
| "store (Voltage v) st = st\<lparr>voltage := v\<rparr>"
| "store (Current v) st = st\<lparr>current := v\<rparr>"
| "store (BatteryCharge v) st = st\<lparr>charge := v\<rparr>"
| "store (BatteryCapacity v) st = st\<lparr>capacity := v\<rparr>"

text \<open>The six sensor fields of a state as readings.\<close>

definition readings_of :: "RoombaState \<Rightarrow> reading list" where
  "readings_of st =
     [Distance (distance st), ChargingState (chargingState st), Voltage (voltage st),
      Current (current st), BatteryCharge (charge st), BatteryCapacity (capacity st)]"

section \<open>Properties of the decoder\<close>

lemma decode_entry_unhandled:
  "i < length packet \<Longrightarrow> packet ! i \<notin> known_ids \<Longrightarrow> decode_entry packet i state = Unhandled"
  by (simp add: decode_entry_def read_byte_def known_ids_def)

lemma decode_entry_Advance_any:
  "decode_entry packet i s = Advance i' s' \<Longrightarrow> \<exists>t'. decode_entry packet i t = Advance i' t'"
  by (auto simp: decode_entry_def split: option.splits if_splits)

lemma decode_entry_Unhandled_any:
  "decode_entry packet i s = Unhandled \<Longrightarrow> decode_entry packet i t = Unhandled"
  by (auto simp: decode_entry_def split: option.splits if_splits)

lemma decode_entry_OutOfBuffer_any:
  "decode_entry packet i s = OutOfBuffer \<Longrightarrow> decode_entry packet i t = OutOfBuffer"
  by (auto simp: decode_entry_def split: option.splits if_splits)

lemma scan_positions_unfold:
  "scan_positions packet len i =
     (if int i < len then
        i # (case decode_entry packet i s of
               Advance i' state' \<Rightarrow> scan_positions packet len i'
             | Unhandled \<Rightarrow> []
             | OutOfBuffer \<Rightarrow> [])
      else [])"
proof (cases "decode_entry packet i s")
  case Unhandled
  from decode_entry_Unhandled_any [OF this, of RoombaState_zero] Unhandled
  show ?thesis by (simp add: scan_positions.simps [of packet len i])
next
  case OutOfBuffer
  from decode_entry_OutOfBuffer_any [OF this, of RoombaState_zero] OutOfBuffer
  show ?thesis by (simp add: scan_positions.simps [of packet len i])
next
  case (Advance i' s')
  from decode_entry_Advance_any [OF this, of RoombaState_zero] Advance
  show ?thesis by (auto simp: scan_positions.simps [of packet len i])
qed

lemma parse_loop_unhandled:
  "int i < len \<Longrightarrow> i < length packet \<Longrightarrow> packet ! i \<notin> known_ids \<Longrightarrow>
     parse_loop packet len i state = Some (False, state)"
  by (simp add: parse_loop.simps decode_entry_unhandled)

lemma parse_loop_fails:
  "p \<in> set (scan_positions packet len i) \<Longrightarrow> p < length packet \<Longrightarrow> packet ! p \<notin> known_ids \<Longrightarrow>
     \<exists>rs. parse_loop packet len i state = Some (False, rs)"
proof (induction packet len i state rule: parse_loop.induct)
  case (1 packet len i state)
  note sp = scan_positions_unfold [of packet len i state]
  from "1.prems"(1) have lt: "int i < len"
    by (simp add: sp split: if_splits)
  show ?case
  proof (cases "decode_entry packet i state")
    case Unhandled
    with lt show ?thesis by (simp add: parse_loop.simps [of packet len i])
  next
    case OutOfBuffer
    with "1.prems"(1) lt have "p = i" by (simp add: sp)
    with "1.prems" have "decode_entry packet i state = Unhandled"
      by (simp add: decode_entry_unhandled)
    with OutOfBuffer show ?thesis by simp
  next
    case (Advance i' state')
    show ?thesis
    proof (cases "p = i")
      case True
      with "1.prems" have "decode_entry packet i state = Unhandled"
        by (simp add: decode_entry_unhandled)
      with Advance show ?thesis by simp
    next
      case False
      with "1.prems"(1) lt Advance have "p \<in> set (scan_positions packet len i')"
        by (simp add: sp)
      from "1.IH" [OF lt Advance this "1.prems"(2,3)] lt Advance
      show ?thesis by (simp add: parse_loop.simps [of packet len i])
    qed
  qed
qed

text \<open>The loop writes none of \<open>cleaning\<close>, \<open>docked\<close>, \<open>timestamp\<close> and \<open>sent\<close>.\<close>

lemma decode_entry_frame:
  "decode_entry packet i s = Advance i' s' \<Longrightarrow>
     cleaning s' = cleaning s \<and> docked s' = docked s \<and> timestamp s' = timestamp s \<and> sent s' = sent s"
  by (auto simp: decode_entry_def split: option.splits if_splits)

text \<open>
  A general frame rule for the loop: a projection of the state that every entry with an
  ID other than \<open>k\<close> keeps is kept by a scan that never meets \<open>k\<close>.
\<close>

lemma parse_loop_keeps:
  assumes entry: "\<And>i s i' s'. decode_entry packet i s = Advance i' s' \<Longrightarrow> P (packet ! i) \<Longrightarrow> f s' = f s"
    and res: "parse_loop packet len i s = Some (ok, s')"
    and scan: "\<forall>q \<in> set (scan_positions packet len i). P (packet ! q)"
  shows "f s' = f s"
  using entry res scan
proof (induction packet len i s rule: parse_loop.induct)
  case (1 packet len i state)
  note sp = scan_positions_unfold [of packet len i state]
  show ?case
  proof (cases "int i < len")
    case False
    with "1.prems"(2) show ?thesis by (simp add: parse_loop.simps [of packet len i])
  next
    case True
    show ?thesis
    proof (cases "decode_entry packet i state")
      case Unhandled
      with True "1.prems"(2) show ?thesis by (simp add: parse_loop.simps [of packet len i])
    next
      case OutOfBuffer
      with True "1.prems"(2) show ?thesis by (simp add: parse_loop.simps [of packet len i])
    next
      case (Advance i' state')
      with True "1.prems"(2) have r: "parse_loop packet len i' state' = Some (ok, s')"
        by (simp add: parse_loop.simps [of packet len i])
      from True Advance "1.prems"(3) have here: "P (packet ! i)"
        and rest: "\<forall>q \<in> set (scan_positions packet len i'). P (packet ! q)"
        by (simp_all add: sp)
      have "f s' = f state'"
        by (rule "1.IH" [OF True Advance "1.prems"(1) r rest])
      also have "f state' = f state"
        by (rule "1.prems"(1) [OF Advance here])
      finally show ?thesis .
    qed
  qed
qed

lemma decode_entry_keeps:
  assumes "decode_entry packet i s = Advance i' s'"
  shows "packet ! i \<noteq> 19 \<Longrightarrow> distance s' = distance s"
    and "packet ! i \<noteq> 21 \<Longrightarrow> chargingState s' = chargingState s"
    and "packet ! i \<noteq> 22 \<Longrightarrow> voltage s' = voltage s"
    and "packet ! i \<noteq> 23 \<Longrightarrow> current s' = current s"
    and "packet ! i \<noteq> 25 \<Longrightarrow> charge s' = charge s"
    and "packet ! i \<noteq> 26 \<Longrightarrow> capacity s' = capacity s"
  using assms
  by (auto simp: decode_entry_def read_byte_def split: option.splits if_splits)

lemma parse_loop_frame:
  assumes "parse_loop packet len i s = Some (ok, s')"
  shows "cleaning s' = cleaning s" and "docked s' = docked s"
    and "timestamp s' = timestamp s" and "sent s' = sent s"
proof -
  have t: "\<forall>q \<in> set (scan_positions packet len i). True" by simp
  show "cleaning s' = cleaning s"
    by (rule parse_loop_keeps [where P = "\<lambda>_. True", OF _ assms t]) (simp add: decode_entry_frame)
  show "docked s' = docked s"
    by (rule parse_loop_keeps [where P = "\<lambda>_. True", OF _ assms t]) (simp add: decode_entry_frame)
  show "timestamp s' = timestamp s"
    by (rule parse_loop_keeps [where P = "\<lambda>_. True", OF _ assms t]) (simp add: decode_entry_frame)
  show "sent s' = sent s"
    by (rule parse_loop_keeps [where P = "\<lambda>_. True", OF _ assms t]) (simp add: decode_entry_frame)
qed

lemma parse_loop_absent:
  assumes "parse_loop packet len i s = Some (ok, s')"
  shows "\<forall>q \<in> set (scan_positions packet len i). packet ! q \<noteq> 19 \<Longrightarrow> distance s' = distance s"
    and "\<forall>q \<in> set (scan_positions packet len i). packet ! q \<noteq> 21 \<Longrightarrow> chargingState s' = chargingState s"
    and "\<forall>q \<in> set (scan_positions packet len i). packet ! q \<noteq> 22 \<Longrightarrow> voltage s' = voltage s"
    and "\<forall>q \<in> set (scan_positions packet len i). packet ! q \<noteq> 23 \<Longrightarrow> current s' = current s"
    and "\<forall>q \<in> set (scan_positions packet len i). packet ! q \<noteq> 25 \<Longrightarrow> charge s' = charge s"
    and "\<forall>q \<in> set (scan_positions packet len i). packet ! q \<noteq> 26 \<Longrightarrow> capacity s' = capacity s"
  by (rule parse_loop_keeps [where P = "\<lambda>b. b \<noteq> 19", OF _ assms], simp add: decode_entry_keeps, assumption)
     (rule parse_loop_keeps [where P = "\<lambda>b. b \<noteq> 21", OF _ assms], simp add: decode_entry_keeps, assumption,
      rule parse_loop_keeps [where P = "\<lambda>b. b \<noteq> 22", OF _ assms], simp add: decode_entry_keeps, assumption,
      rule parse_loop_keeps [where P = "\<lambda>b. b \<noteq> 23", OF _ assms], simp add: decode_entry_keeps, assumption,
      rule parse_loop_keeps [where P = "\<lambda>b. b \<noteq> 25", OF _ assms], simp add: decode_entry_keeps, assumption,
      rule parse_loop_keeps [where P = "\<lambda>b. b \<noteq> 26", OF _ assms], simp add: decode_entry_keeps, assumption)

lemma uint_hi_byte: "uint (hi_byte v) = uint v div 256"
proof -
  have "uint v < 65536" using uint_bounded [of v] by simp
  then have "uint v div 256 < 256" by simp
  moreover have "0 \<le> uint v div 256"
    using uint_nonnegative [of v] by (simp add: div_int_pos_iff)
  ultimately show ?thesis
    by (simp add: hi_byte_def unsigned_ucast_eq unsigned_drop_bit_eq take_bit_eq_mod
                  drop_bit_eq_div uint_div_distrib)
qed

lemma uint_lo_byte: "uint (lo_byte v) = uint v mod 256"
  by (simp add: lo_byte_def unsigned_ucast_eq take_bit_eq_mod)

lemma be16_split: "be16 (hi_byte v) (lo_byte v) = v"
  by (simp add: be16_def uint_hi_byte uint_lo_byte)

lemma uint_be16: "uint (be16 hi lo) = uint hi * 256 + uint lo"
proof -
  have "uint hi < 256" "uint lo < 256" using uint_bounded [of hi] uint_bounded [of lo] by simp_all
  moreover have "0 \<le> uint hi" "0 \<le> uint lo" by simp_all
  ultimately have "0 \<le> uint hi * 256 + uint lo" "uint hi * 256 + uint lo < 65536" by simp_all
  then show ?thesis unfolding be16_def uint_word_of_int by simp
qed

lemma hi_byte_be16: "hi_byte (be16 hi lo) = hi"
proof (rule word_uint_eqI)
  have "uint lo < 256" using uint_bounded [of lo] by simp
  then show "uint (hi_byte (be16 hi lo)) = uint hi"
    by (simp add: uint_hi_byte uint_be16)
qed

lemma lo_byte_be16: "lo_byte (be16 hi lo) = lo"
proof (rule word_uint_eqI)
  have "uint lo < 256" using uint_bounded [of lo] by simp
  then show "uint (lo_byte (be16 hi lo)) = uint lo"
    by (simp add: uint_lo_byte uint_be16)
qed

lemma scan_positions_bound:
  "p \<in> set (scan_positions packet len i) \<Longrightarrow> int p < len \<and> i \<le> p"
proof (induction packet len i rule: scan_positions.induct)
  case (1 packet len i)
  then show ?case
    by (auto simp: scan_positions.simps [of packet len i] decode_entry_def
             split: if_splits entry.splits option.splits)
qed

lemma decode_entry_encoded:
  "decode_entry (pre @ encode_reading r @ post) (length pre) st =
     Advance (length pre + length (encode_reading r)) (store r st)"
  by (cases r)
     (simp_all add: decode_entry_def read_byte_def read_be16_def nth_append be16_split)

lemma parse_loop_encoded:
  "parse_loop (pre @ encode rs @ post) (int (length pre + length (encode rs))) (length pre) st =
     Some (True, fold store rs st)"
proof (induction rs arbitrary: pre st)
  case Nil
  show ?case by (simp add: encode_def parse_loop.simps)
next
  case (Cons r rs)
  have len: "int (length pre) < int (length pre + length (encode (r # rs)))"
    by (cases r) (simp_all add: encode_def)
  have "parse_loop (pre @ encode (r # rs) @ post) (int (length pre + length (encode (r # rs))))
          (length pre) st =
        parse_loop ((pre @ encode_reading r) @ encode rs @ post)
          (int (length (pre @ encode_reading r) + length (encode rs)))
          (length (pre @ encode_reading r)) (store r st)"
    using len decode_entry_encoded [of pre r "encode rs @ post" st]
    by (subst parse_loop.simps) (simp add: encode_def add.assoc del: of_nat_add)
  also have "\<dots> = Some (True, fold store rs (store r st))"
    by (rule Cons.IH)
  finally show ?case by simp
qed

lemmas decoder_eval =
  parseRoombaStateFromStreamPacket_def parse_loop.simps decode_entry_def
  read_be16_def read_byte_def be16_def RoombaState_zero_def

section \<open>The state estimator\<close>

text \<open>
  Claim C4. For every successfully decoded sample the estimator sets \<open>cleaning\<close> (and not
  \<open>docked\<close>) exactly when the decoded current, read as a signed 16-bit number, is below
  -400, sets \<open>docked\<close> (and not \<open>cleaning\<close>) exactly when it is above -50, and sets neither
  exactly when it lies in the closed range from -400 to -50; so both boundary values give
  neither flag.
\<close>

theorem estimator_thresholds:
  assumes "received p"
    and "parseRoombaStateFromStreamPacket (roombaPacket p) (uint (packetLength p)) now
           RoombaState_zero = Some (True, rs)"
  shows "\<exists>st'. readSensorPacket p now st = Some st' \<and> current st' = current rs
           \<and> ((cleaning st' \<and> \<not> docked st') = (sint (current st') < - 400))
           \<and> ((docked st' \<and> \<not> cleaning st') = (- 50 < sint (current st')))
           \<and> ((\<not> cleaning st' \<and> \<not> docked st') =
                (- 400 \<le> sint (current st') \<and> sint (current st') \<le> - 50))"
  using assms by (auto simp: readSensorPacket_def estimate_def Let_def)

theorem estimator_thresholds_witness:
  "(\<exists>st'. readSensorPacket \<lparr>received = True, roombaPacket = [23, 0xFE, 0x6F], packetLength = 3\<rparr> 7
            RoombaState_zero = Some st' \<and> sint (current st') = - 401 \<and> cleaning st' \<and> \<not> docked st')
 \<and> (\<exists>st'. readSensorPacket \<lparr>received = True, roombaPacket = [23, 0xFE, 0x70], packetLength = 3\<rparr> 7
            RoombaState_zero = Some st' \<and> sint (current st') = - 400 \<and> \<not> cleaning st' \<and> \<not> docked st')
 \<and> (\<exists>st'. readSensorPacket \<lparr>received = True, roombaPacket = [23, 0xFF, 0xCE], packetLength = 3\<rparr> 7
            RoombaState_zero = Some st' \<and> sint (current st') = - 50 \<and> \<not> cleaning st' \<and> \<not> docked st')
 \<and> (\<exists>st'. readSensorPacket \<lparr>received = True, roombaPacket = [23, 0xFF, 0xCF], packetLength = 3\<rparr> 7
            RoombaState_zero = Some st' \<and> sint (current st') = - 49 \<and> docked st' \<and> \<not> cleaning st')"
proof -
  have p1: "parseRoombaStateFromStreamPacket [23, 0xFE, 0x6F] 3 7 RoombaState_zero
              = Some (True, RoombaState_zero\<lparr>timestamp := 7, current := 0xFE6F\<rparr>)"
   and p2: "parseRoombaStateFromStreamPacket [23, 0xFE, 0x70] 3 7 RoombaState_zero
              = Some (True, RoombaState_zero\<lparr>timestamp := 7, current := 0xFE70\<rparr>)"
   and p3: "parseRoombaStateFromStreamPacket [23, 0xFF, 0xCE] 3 7 RoombaState_zero
              = Some (True, RoombaState_zero\<lparr>timestamp := 7, current := 0xFFCE\<rparr>)"
   and p4: "parseRoombaStateFromStreamPacket [23, 0xFF, 0xCF] 3 7 RoombaState_zero
              = Some (True, RoombaState_zero\<lparr>timestamp := 7, current := 0xFFCF\<rparr>)"
    by (simp_all add: decoder_eval)
  have c1: "sint (0xFE6F :: 16 word) = - 401" and c2: "sint (0xFE70 :: 16 word) = - 400"
   and c3: "sint (0xFFCE :: 16 word) = - 50" and c4: "sint (0xFFCF :: 16 word) = - 49"
    by simp_all
  let ?P1 = "\<lparr>received = True, roombaPacket = [23, 0xFE, 0x6F], packetLength = 3\<rparr>"
  let ?P2 = "\<lparr>received = True, roombaPacket = [23, 0xFE, 0x70], packetLength = 3\<rparr>"
  let ?P3 = "\<lparr>received = True, roombaPacket = [23, 0xFF, 0xCE], packetLength = 3\<rparr>"
  let ?P4 = "\<lparr>received = True, roombaPacket = [23, 0xFF, 0xCF], packetLength = 3\<rparr>"
  have r1: "\<exists>st'. readSensorPacket ?P1 7 RoombaState_zero = Some st' \<and> sint (current st') = - 401
             \<and> cleaning st' \<and> \<not> docked st'"
    using estimator_thresholds [of ?P1 7 _ RoombaState_zero] p1 by fastforce
  have r2: "\<exists>st'. readSensorPacket ?P2 7 RoombaState_zero = Some st' \<and> sint (current st') = - 400
             \<and> \<not> cleaning st' \<and> \<not> docked st'"
    using estimator_thresholds [of ?P2 7 _ RoombaState_zero] p2 by fastforce
  have r3: "\<exists>st'. readSensorPacket ?P3 7 RoombaState_zero = Some st' \<and> sint (current st') = - 50
             \<and> \<not> cleaning st' \<and> \<not> docked st'"
    using estimator_thresholds [of ?P3 7 _ RoombaState_zero] p3 by fastforce
  have r4: "\<exists>st'. readSensorPacket ?P4 7 RoombaState_zero = Some st' \<and> sint (current st') = - 49
             \<and> docked st' \<and> \<not> cleaning st'"
    using estimator_thresholds [of ?P4 7 _ RoombaState_zero] p4 by fastforce
  from r1 r2 r3 r4 show ?thesis by blast
qed

section \<open>Failed decodes\<close>

text \<open>
  Claim C3. For every buffer and declared length: when the byte at a scan position \<open>p\<close> is
  not an ID the decoder knows, the loop returns failure at \<open>p\<close> at once, without touching
  \<open>*state\<close>; the decoder as a whole returns failure; and \<open>readSensorPacket\<close>, polled with
  that buffer and length, leaves the global \<open>roombaState\<close> exactly as it was.
\<close>

theorem unrecognized_id_discards_buffer:
  assumes "p \<in> set (scan_positions packet len 0)"
    and "p < length packet"
    and "packet ! p \<notin> known_ids"
  shows "parse_loop packet len p state = Some (False, state)
       \<and> (\<exists>rs. parseRoombaStateFromStreamPacket packet len now state = Some (False, rs))
       \<and> (\<forall>pl. roombaPacket pl = packet \<and> uint (packetLength pl) = len
              \<longrightarrow> readSensorPacket pl now st = Some st)"
proof -
  from scan_positions_bound [OF assms(1)] have "int p < len" by simp
  then have a: "parse_loop packet len p state = Some (False, state)"
    using assms(2,3) by (rule parse_loop_unhandled)
  have b: "\<exists>rs. parseRoombaStateFromStreamPacket packet len now s0 = Some (False, rs)" for s0
    unfolding parseRoombaStateFromStreamPacket_def using assms by (rule parse_loop_fails)
  have c: "readSensorPacket pl now st = Some st"
    if "roombaPacket pl = packet \<and> uint (packetLength pl) = len" for pl
    using that b [of RoombaState_zero] by (auto simp: readSensorPacket_def)
  from a b c show ?thesis by blast
qed

theorem unrecognized_id_discards_buffer_witness:
  "parse_loop [23, 0xFF, 0xCE, 5, 22, 0x3A, 0x98] 7 3 (RoombaState_zero\<lparr>current := 0xFFCE\<rparr>)
     = Some (False, RoombaState_zero\<lparr>current := 0xFFCE\<rparr>)
   \<and> (\<exists>rs. parseRoombaStateFromStreamPacket [23, 0xFF, 0xCE, 5, 22, 0x3A, 0x98] 7 9
              (RoombaState_zero\<lparr>current := 0xFFCE\<rparr>) = Some (False, rs))
   \<and> readSensorPacket \<lparr>received = True, roombaPacket = [23, 0xFF, 0xCE, 5, 22, 0x3A, 0x98],
                         packetLength = 7\<rparr> 9
        (RoombaState_zero\<lparr>voltage := 14000, docked := True, sent := True\<rparr>)
     = Some (RoombaState_zero\<lparr>voltage := 14000, docked := True, sent := True\<rparr>)"
proof -
  have sp: "scan_positions [23, 0xFF, 0xCE, 5, 22, 0x3A, 0x98] 7 0 = [0, 3]"
    by (simp add: scan_positions.simps decode_entry_def read_be16_def read_byte_def)
  have "(3::nat) \<in> set (scan_positions [23, 0xFF, 0xCE, 5, 22, 0x3A, 0x98] 7 0)"
    by (simp add: sp)
  moreover have "(3::nat) < length [23, 0xFF, 0xCE, 5, 22, 0x3A, 0x98 :: 8 word]" by simp
  moreover have "[23, 0xFF, 0xCE, 5, 22, 0x3A, 0x98 :: 8 word] ! 3 \<notin> known_ids"
    by (simp add: known_ids_def)
  ultimately show ?thesis
    using unrecognized_id_discards_buffer
      [of 3 "[23, 0xFF, 0xCE, 5, 22, 0x3A, 0x98]" 7 "RoombaState_zero\<lparr>current := 0xFFCE\<rparr>" 9
          "RoombaState_zero\<lparr>voltage := 14000, docked := True, sent := True\<rparr>"]
    by simp
qed

section \<open>Truncated entries\<close>

text \<open>
  Claim C9. The loop compares \<open>i\<close> with the declared length only before an entry. When a
  known two-byte sensor ID stands at an index \<open>i\<close> below the declared length and its value
  bytes lie at or beyond that length (but still inside the memory behind \<open>packet\<close>), the
  decoder stores the value built from those bytes and returns success; the same holds
  for the one-byte charging state when the declared length ends right after its ID.
\<close>

theorem truncated_entry_is_decoded:
  assumes "int i < len" and "len \<le> int i + 2" and "i + 2 < length packet"
  shows "(packet ! i = 19 \<longrightarrow> parse_loop packet len i s =
            Some (True, s\<lparr>distance := word_of_int (uint (packet ! (i + 1)) * 256 + uint (packet ! (i + 2)))\<rparr>))
       \<and> (packet ! i = 22 \<longrightarrow> parse_loop packet len i s =
            Some (True, s\<lparr>voltage := word_of_int (uint (packet ! (i + 1)) * 256 + uint (packet ! (i + 2)))\<rparr>))
       \<and> (packet ! i = 23 \<longrightarrow> parse_loop packet len i s =
            Some (True, s\<lparr>current := word_of_int (uint (packet ! (i + 1)) * 256 + uint (packet ! (i + 2)))\<rparr>))
       \<and> (packet ! i = 25 \<longrightarrow> parse_loop packet len i s =
            Some (True, s\<lparr>charge := word_of_int (uint (packet ! (i + 1)) * 256 + uint (packet ! (i + 2)))\<rparr>))
       \<and> (packet ! i = 26 \<longrightarrow> parse_loop packet len i s =
            Some (True, s\<lparr>capacity := word_of_int (uint (packet ! (i + 1)) * 256 + uint (packet ! (i + 2)))\<rparr>))
       \<and> (packet ! i = 21 \<and> len = int i + 1 \<longrightarrow> parse_loop packet len i s =
            Some (True, s\<lparr>chargingState := packet ! (i + 1)\<rparr>))"
proof -
  have next3: "parse_loop packet len (i + 3) t = Some (True, t)" for t
    using assms(2) by (subst parse_loop.simps) simp
  have next2: "len = int i + 1 \<Longrightarrow> parse_loop packet len (i + 2) t = Some (True, t)" for t
    by (subst parse_loop.simps) simp
  have step: "parse_loop packet len i s =
      (case decode_entry packet i s of
         Advance i' s' \<Rightarrow> parse_loop packet len i' s'
       | Unhandled \<Rightarrow> Some (False, s)
       | OutOfBuffer \<Rightarrow> None)"
    using assms(1) by (subst parse_loop.simps) simp
  show ?thesis
    unfolding step using assms(3) next3 next2
    by (simp add: decode_entry_def read_be16_def read_byte_def be16_def)
qed

theorem truncated_entry_is_decoded_witness:
  "parse_loop [23, 0xFE, 0x0C] 1 0 RoombaState_zero
     = Some (True, RoombaState_zero\<lparr>current := 0xFE0C\<rparr>)
   \<and> readSensorPacket \<lparr>received = True, roombaPacket = [23, 0xFE, 0x0C] @ replicate 97 0,
                         packetLength = 1\<rparr> 9 RoombaState_zero
     = Some (RoombaState_zero\<lparr>current := 0xFE0C, cleaning := True, timestamp := 9\<rparr>)"
proof -
  have a: "parse_loop [23, 0xFE, 0x0C] 1 0 RoombaState_zero
     = Some (True, RoombaState_zero\<lparr>current := 0xFE0C\<rparr>)"
    using truncated_entry_is_decoded [of 0 1 "[23, 0xFE, 0x0C]" RoombaState_zero] by simp
  have b: "parse_loop ([23, 0xFE, 0x0C] @ replicate 97 0) 1 0 (RoombaState_zero\<lparr>timestamp := 9\<rparr>)
     = Some (True, RoombaState_zero\<lparr>timestamp := 9, current := 0xFE0C\<rparr>)"
    using truncated_entry_is_decoded [of 0 1 "[23, 0xFE, 0x0C] @ replicate 97 0" "RoombaState_zero\<lparr>timestamp := 9\<rparr>"] by simp
  have "readSensorPacket \<lparr>received = True, roombaPacket = [23, 0xFE, 0x0C] @ replicate 97 0,
                         packetLength = 1\<rparr> 9 RoombaState_zero
     = Some (RoombaState_zero\<lparr>current := 0xFE0C, cleaning := True, timestamp := 9\<rparr>)"
    using b by (simp add: readSensorPacket_def parseRoombaStateFromStreamPacket_def estimate_def Let_def RoombaState_zero_def)
  with a show ?thesis by simp
qed

section \<open>Successful decodes replace the state\<close>

text \<open>
  Claim C10. When a packet was received and decodes successfully, \<open>readSensorPacket\<close>
  stores one and the same state whatever the previous state was (the record is built from
  a zero-initialised one): its \<open>sent\<close> flag is false, its time stamp is the clock value of
  this decode, and every sensor field whose ID stands at no scan position of the packet
  is 0. When nothing was received, or the decoder returns failure, the previous state is
  the new state, field by field.
\<close>

theorem successful_decode_replaces_state:
  "(received p \<and> parseRoombaStateFromStreamPacket (roombaPacket p) (uint (packetLength p)) now
        RoombaState_zero = Some (True, rs)
      \<longrightarrow> (\<exists>st'. (\<forall>st. readSensorPacket p now st = Some st')
            \<and> \<not> sent st' \<and> timestamp st' = now
            \<and> ((\<forall>q \<in> set (scan_positions (roombaPacket p) (uint (packetLength p)) 0).
                   roombaPacket p ! q \<noteq> 19) \<longrightarrow> distance st' = 0)
            \<and> ((\<forall>q \<in> set (scan_positions (roombaPacket p) (uint (packetLength p)) 0).
                   roombaPacket p ! q \<noteq> 21) \<longrightarrow> chargingState st' = 0)
            \<and> ((\<forall>q \<in> set (scan_positions (roombaPacket p) (uint (packetLength p)) 0).
                   roombaPacket p ! q \<noteq> 22) \<longrightarrow> voltage st' = 0)
            \<and> ((\<forall>q \<in> set (scan_positions (roombaPacket p) (uint (packetLength p)) 0).
                   roombaPacket p ! q \<noteq> 23) \<longrightarrow> current st' = 0)
            \<and> ((\<forall>q \<in> set (scan_positions (roombaPacket p) (uint (packetLength p)) 0).
                   roombaPacket p ! q \<noteq> 25) \<longrightarrow> charge st' = 0)
            \<and> ((\<forall>q \<in> set (scan_positions (roombaPacket p) (uint (packetLength p)) 0).
                   roombaPacket p ! q \<noteq> 26) \<longrightarrow> capacity st' = 0)))
 \<and> ((\<not> received p \<or> parseRoombaStateFromStreamPacket (roombaPacket p) (uint (packetLength p)) now
        RoombaState_zero = Some (False, rs))
      \<longrightarrow> readSensorPacket p now st0 = Some st0)"
proof (intro conjI impI)
  assume "\<not> received p \<or> parseRoombaStateFromStreamPacket (roombaPacket p)
            (uint (packetLength p)) now RoombaState_zero = Some (False, rs)"
  then show "readSensorPacket p now st0 = Some st0"
    by (auto simp: readSensorPacket_def)
next
  let ?pos = "scan_positions (roombaPacket p) (uint (packetLength p)) 0"
  let ?z = "RoombaState_zero\<lparr>timestamp := now\<rparr>"
  assume a: "received p \<and> parseRoombaStateFromStreamPacket (roombaPacket p)
               (uint (packetLength p)) now RoombaState_zero = Some (True, rs)"
  then have pl: "parse_loop (roombaPacket p) (uint (packetLength p)) 0 ?z = Some (True, rs)"
    by (simp add: parseRoombaStateFromStreamPacket_def)
  have all: "readSensorPacket p now st = Some (estimate rs)" for st
    using a by (simp add: readSensorPacket_def)
  have est: "distance (estimate rs) = distance rs" "chargingState (estimate rs) = chargingState rs"
    "voltage (estimate rs) = voltage rs" "current (estimate rs) = current rs"
    "charge (estimate rs) = charge rs" "capacity (estimate rs) = capacity rs"
    "sent (estimate rs) = sent rs" "timestamp (estimate rs) = timestamp rs"
    by (simp_all add: estimate_def Let_def)
  have z: "distance ?z = 0" "chargingState ?z = 0" "voltage ?z = 0" "current ?z = 0"
    "charge ?z = 0" "capacity ?z = 0" "\<not> sent ?z" "timestamp ?z = now"
    by (simp_all add: RoombaState_zero_def)
  have "\<not> sent (estimate rs)" "timestamp (estimate rs) = now"
    using parse_loop_frame [OF pl] est z by simp_all
  moreover have "(\<forall>q \<in> set ?pos. roombaPacket p ! q \<noteq> 19) \<longrightarrow> distance (estimate rs) = 0"
    using parse_loop_absent(1) [OF pl] est z by simp
  moreover have "(\<forall>q \<in> set ?pos. roombaPacket p ! q \<noteq> 21) \<longrightarrow> chargingState (estimate rs) = 0"
    using parse_loop_absent(2) [OF pl] est z by simp
  moreover have "(\<forall>q \<in> set ?pos. roombaPacket p ! q \<noteq> 22) \<longrightarrow> voltage (estimate rs) = 0"
    using parse_loop_absent(3) [OF pl] est z by simp
  moreover have "(\<forall>q \<in> set ?pos. roombaPacket p ! q \<noteq> 23) \<longrightarrow> current (estimate rs) = 0"
    using parse_loop_absent(4) [OF pl] est z by simp
  moreover have "(\<forall>q \<in> set ?pos. roombaPacket p ! q \<noteq> 25) \<longrightarrow> charge (estimate rs) = 0"
    using parse_loop_absent(5) [OF pl] est z by simp
  moreover have "(\<forall>q \<in> set ?pos. roombaPacket p ! q \<noteq> 26) \<longrightarrow> capacity (estimate rs) = 0"
    using parse_loop_absent(6) [OF pl] est z by simp
  ultimately show "\<exists>st'. (\<forall>st. readSensorPacket p now st = Some st')
            \<and> \<not> sent st' \<and> timestamp st' = now
            \<and> ((\<forall>q \<in> set ?pos. roombaPacket p ! q \<noteq> 19) \<longrightarrow> distance st' = 0)
            \<and> ((\<forall>q \<in> set ?pos. roombaPacket p ! q \<noteq> 21) \<longrightarrow> chargingState st' = 0)
            \<and> ((\<forall>q \<in> set ?pos. roombaPacket p ! q \<noteq> 22) \<longrightarrow> voltage st' = 0)
            \<and> ((\<forall>q \<in> set ?pos. roombaPacket p ! q \<noteq> 23) \<longrightarrow> current st' = 0)
            \<and> ((\<forall>q \<in> set ?pos. roombaPacket p ! q \<noteq> 25) \<longrightarrow> charge st' = 0)
            \<and> ((\<forall>q \<in> set ?pos. roombaPacket p ! q \<noteq> 26) \<longrightarrow> capacity st' = 0)"
    using all by blast
qed


theorem successful_decode_replaces_state_witness:
  "(\<exists>st'. (\<forall>st. readSensorPacket
                    \<lparr>received = True, roombaPacket = [23, 0xFE, 0x0C], packetLength = 3\<rparr> 9 st
                  = Some st')
         \<and> \<not> sent st' \<and> timestamp st' = 9 \<and> distance st' = 0 \<and> chargingState st' = 0
         \<and> voltage st' = 0 \<and> charge st' = 0 \<and> capacity st' = 0)
   \<and> readSensorPacket \<lparr>received = True, roombaPacket = [23, 0xFE, 0x0C, 5], packetLength = 4\<rparr> 9
        (RoombaState_zero\<lparr>distance := 120, voltage := 14000, docked := True, sent := True\<rparr>)
      = Some (RoombaState_zero\<lparr>distance := 120, voltage := 14000, docked := True, sent := True\<rparr>)
   \<and> readSensorPacket \<lparr>received = False, roombaPacket = [23, 0xFE, 0x0C], packetLength = 3\<rparr> 9
        (RoombaState_zero\<lparr>distance := 120, voltage := 14000, docked := True, sent := True\<rparr>)
      = Some (RoombaState_zero\<lparr>distance := 120, voltage := 14000, docked := True, sent := True\<rparr>)"
proof -
  let ?good = "\<lparr>received = True, roombaPacket = [23, 0xFE, 0x0C], packetLength = 3\<rparr>"
  let ?bad = "\<lparr>received = True, roombaPacket = [23, 0xFE, 0x0C, 5], packetLength = 4\<rparr>"
  let ?none = "\<lparr>received = False, roombaPacket = [23, 0xFE, 0x0C], packetLength = 3\<rparr>"
  let ?prev = "RoombaState_zero\<lparr>distance := 120, voltage := 14000, docked := True, sent := True\<rparr>"
  have good: "parseRoombaStateFromStreamPacket [23, 0xFE, 0x0C] 3 9 RoombaState_zero
                = Some (True, RoombaState_zero\<lparr>timestamp := 9, current := 0xFE0C\<rparr>)"
    by (simp add: decoder_eval)
  have bad: "parseRoombaStateFromStreamPacket [23, 0xFE, 0x0C, 5] 4 9 RoombaState_zero
                = Some (False, RoombaState_zero\<lparr>timestamp := 9, current := 0xFE0C\<rparr>)"
    by (simp add: decoder_eval)
  have pos: "scan_positions [23, 0xFE, 0x0C] 3 0 = [0]"
    by (simp add: scan_positions.simps decode_entry_def read_be16_def read_byte_def)
  have a: "\<exists>st'. (\<forall>st. readSensorPacket ?good 9 st = Some st')
         \<and> \<not> sent st' \<and> timestamp st' = 9 \<and> distance st' = 0 \<and> chargingState st' = 0
         \<and> voltage st' = 0 \<and> charge st' = 0 \<and> capacity st' = 0"
    using successful_decode_replaces_state
            [of ?good 9 "RoombaState_zero\<lparr>timestamp := 9, current := 0xFE0C\<rparr>"] good pos
    by simp
  have b: "readSensorPacket ?bad 9 ?prev = Some ?prev"
    using successful_decode_replaces_state
            [of ?bad 9 "RoombaState_zero\<lparr>timestamp := 9, current := 0xFE0C\<rparr>" ?prev] bad
    by simp
  have c: "readSensorPacket ?none 9 ?prev = Some ?prev"
    using successful_decode_replaces_state [of ?none 9 _ ?prev] by simp
  from a b c show ?thesis by blast
qed

section \<open>Decoding encoded readings\<close>

lemma decode_encoded:
  "parseRoombaStateFromStreamPacket (encode rs) (int (length (encode rs))) now st =
     Some (True, fold store rs (st\<lparr>timestamp := now\<rparr>))"
  using parse_loop_encoded [of "[]" rs "[]" "st\<lparr>timestamp := now\<rparr>"]
  by (simp add: parseRoombaStateFromStreamPacket_def)

lemma readings_of_store_all:
  "readings_of (fold store (readings_of s) t) = readings_of s"
  by (simp add: readings_of_def)

text \<open>
  Claim C8. For every sequence of readings with the documented IDs 19, 21, 22, 23, 25
  and 26, decoding its encoding succeeds and stores exactly the typed values of the
  readings (a later reading of an ID overwriting an earlier one); encoding the six decoded
  fields again and decoding that reproduces the same six typed values; and every byte
  pair after a two-byte ID is the encoding of the value the decoder builds from it, so
  the encodings are all the byte sequences built from the documented entries.
\<close>

theorem decode_encode_round_trip:
  "parseRoombaStateFromStreamPacket (encode rs) (int (length (encode rs))) now st =
     Some (True, fold store rs (st\<lparr>timestamp := now\<rparr>))
   \<and> (\<exists>st2. parseRoombaStateFromStreamPacket
               (encode (readings_of (fold store rs (st\<lparr>timestamp := now\<rparr>))))
               (int (length (encode (readings_of (fold store rs (st\<lparr>timestamp := now\<rparr>))))))
               now' st' = Some (True, st2)
            \<and> readings_of st2 = readings_of (fold store rs (st\<lparr>timestamp := now\<rparr>)))
   \<and> encode_reading (Distance (be16 hi lo)) = [19, hi, lo]
   \<and> encode_reading (Voltage (be16 hi lo)) = [22, hi, lo]
   \<and> encode_reading (Current (be16 hi lo)) = [23, hi, lo]
   \<and> encode_reading (BatteryCharge (be16 hi lo)) = [25, hi, lo]
   \<and> encode_reading (BatteryCapacity (be16 hi lo)) = [26, hi, lo]"
  by (simp add: decode_encoded readings_of_store_all hi_byte_be16 lo_byte_be16)

theorem decode_encode_round_trip_witness:
  "encode [Current 0xFE0C, Voltage 14000, ChargingState 2] = [23, 0xFE, 0x0C, 22, 0x36, 0xB0, 21, 2]
   \<and> parseRoombaStateFromStreamPacket [23, 0xFE, 0x0C, 22, 0x36, 0xB0, 21, 2] 8 9 RoombaState_zero
       = Some (True, RoombaState_zero\<lparr>timestamp := 9, current := 0xFE0C, voltage := 14000,
                                       chargingState := 2\<rparr>)"
proof -
  have e: "encode [Current 0xFE0C, Voltage 14000, ChargingState 2]
             = [23, 0xFE, 0x0C, 22, 0x36, 0xB0, 21, 2]"
    by (simp add: encode_def hi_byte_def lo_byte_def)
  show ?thesis
    using decode_encode_round_trip
            [of "[Current 0xFE0C, Voltage 14000, ChargingState 2]" 9 RoombaState_zero]
    by (simp add: e)
qed

section \<open>The command translator\<close>

text \<open>A byte sequence without a NUL is read as a C string in full.\<close>

lemma c_str_id: "CHR 0x00 \<notin> set s \<Longrightarrow> c_str s = s"
  by (auto simp: c_str_def takeWhile_eq_all_conv)

text \<open>
  Claim C6. For every token, recognised or not, the actions of \<open>performCommand\<close> begin with
  the wake sequence (the wake line driven low for 200 ms, released for 200 ms, then the
  start opcode 128). In particular \<open>turn_on\<close> followed at once by \<open>turn_off\<close> succeeds twice,
  leaves \<open>cleaning\<close> false, and the actions are: wake sequence, cover, wake sequence, power.
\<close>

theorem wake_precedes_every_command:
  "take (length wakeup) (snd (snd (performCommand cmd st))) = wakeup
   \<and> wakeup = [DLOG ''Wakeup Roomba'', PinMode OUTPUT, DigitalWriteLow, Delay 200,
               PinMode INPUT, Delay 200, SerialWrite 128]
   \<and> (case performCommand ''turn_on'' st of
         (ok1, st1, acts1) \<Rightarrow>
           (case performCommand ''turn_off'' st1 of
              (ok2, st2, acts2) \<Rightarrow>
                ok1 \<and> ok2 \<and> \<not> cleaning st2
                \<and> acts1 @ acts2 = wakeup @ [DLOG ''Turning on'', Roomba_cover]
                                 @ wakeup @ [DLOG ''Turning off'', Roomba_power]))"
  by (simp add: performCommand_def wakeup_def)

text \<open>
  Claim C7. For every token outside the vocabulary \<open>turn_on\<close>, \<open>turn_off\<close>, \<open>start\<close>,
  \<open>pause\<close>, \<open>stop\<close>, \<open>clean_spot\<close>, \<open>locate\<close>, \<open>return_to_base\<close>, \<open>performCommand\<close> returns
  failure, its only actions are the wake sequence, and the state is unchanged. When such
  a token arrives as the payload of a message on the command topic (the token being what
  a C string read sees of the payload), \<open>mqttCallback\<close> leaves the state unchanged and adds
  nothing but debug-log entries to the wake sequence.
\<close>

theorem unknown_token_rejected:
  assumes "cmd \<notin> vocabulary"
  shows "performCommand cmd st = (False, st, wakeup)
       \<and> (\<forall>payload. c_str payload = cmd \<longrightarrow>
            mqttCallback topic topic payload st =
              (st, [DLOG ''Received mqtt callback for topic %s''] @ wakeup
                   @ [DLOG ''Unknown command %s'']))"
  using assms by (simp add: performCommand_def mqttCallback_def vocabulary_def)

theorem unknown_token_rejected_witness:
  "performCommand ''dance'' (RoombaState_zero\<lparr>docked := True\<rparr>)
     = (False, RoombaState_zero\<lparr>docked := True\<rparr>, wakeup)
   \<and> mqttCallback ''vacuum/roomba1a2b3c/command'' ''vacuum/roomba1a2b3c/command'' ''dance''
        (RoombaState_zero\<lparr>docked := True\<rparr>)
     = (RoombaState_zero\<lparr>docked := True\<rparr>,
        [DLOG ''Received mqtt callback for topic %s''] @ wakeup @ [DLOG ''Unknown command %s''])"
proof -
  have "''dance'' \<notin> vocabulary" by (simp add: vocabulary_def)
  moreover have "c_str ''dance'' = ''dance''" by (simp add: c_str_def)
  ultimately show ?thesis
    using unknown_token_rejected [of "''dance''" "RoombaState_zero\<lparr>docked := True\<rparr>"
            "''vacuum/roomba1a2b3c/command''"]
    by blast
qed

section \<open>The battery percentage\<close>

text \<open>
  Claim C2. With the MQTT link up, \<open>sendStatus\<close> on a state whose capacity is not 0
  publishes a status whose \<open>battery_level\<close> is the C quotient of \<open>charge * 100\<close> by
  \<open>capacity\<close> (\<open>charge\<close> read as signed, \<open>capacity\<close> as unsigned, the quotient truncated
  towards zero). On a state whose capacity is 0 the computation is undefined: there is no
  guard. The zero-valued initial state has capacity 0, and the first publish tick after
  startup (clock above 10 s and within 30 s, link up) reaches the division from it.
\<close>

theorem battery_level_division:
  "(capacity st \<noteq> 0 \<longrightarrow>
      (\<exists>m. sendStatus True st = Some [DLOG ''Reporting status: %s'', Publish_state m]
          \<and> battery_level m =
              (if 0 \<le> sint (charge st) then (sint (charge st) * 100) div uint (capacity st)
               else - ((- sint (charge st) * 100) div uint (capacity st)))))
   \<and> (capacity st = 0 \<longrightarrow> sendStatus True st = None)
   \<and> capacity RoombaState_zero = 0
   \<and> (connected env \<and> 10000 < sint (millis_loop env) \<and> sint (millis_loop env) \<le> 30000
        \<longrightarrow> loop cfg env globals_init = Undefined)"
proof (intro conjI impI)
  assume nz: "capacity st \<noteq> 0"
  then have "uint (capacity st) \<noteq> 0"
    by (simp add: uint_0_iff)
  then have pos: "0 < uint (capacity st)"
    using uint_nonnegative [of "capacity st"] by linarith
  show "\<exists>m. sendStatus True st = Some [DLOG ''Reporting status: %s'', Publish_state m]
          \<and> battery_level m =
              (if 0 \<le> sint (charge st) then (sint (charge st) * 100) div uint (capacity st)
               else - ((- sint (charge st) * 100) div uint (capacity st)))"
  proof (cases "0 \<le> sint (charge st)")
    case True
    then show ?thesis using pos
      by (cases "sint (charge st) = 0") (simp_all add: sendStatus_def c_div_def sgn_if)
  next
    case False
    then show ?thesis using pos
      by (simp add: sendStatus_def c_div_def sgn_if abs_if)
  qed
next
  assume "capacity st = 0"
  then show "sendStatus True st = None" by (simp add: sendStatus_def c_div_def)
next
  show "capacity RoombaState_zero = 0" by (simp add: RoombaState_zero_def)
next
  assume "connected env \<and> 10000 < sint (millis_loop env) \<and> sint (millis_loop env) \<le> 30000"
  then show "loop cfg env globals_init = Undefined"
    by (simp add: loop_def connect_block_def wake_block_def publish_block_def globals_init_def
                  RoombaState_zero_def sendStatus_def c_div_def Let_def)
qed


theorem battery_level_division_witness:
  "(\<exists>m. sendStatus True (RoombaState_zero\<lparr>charge := 2000, capacity := 2600\<rparr>)
          = Some [DLOG ''Reporting status: %s'', Publish_state m] \<and> battery_level m = 76)
   \<and> (\<exists>m. sendStatus True (RoombaState_zero\<lparr>charge := 0xFF9C, capacity := 2600\<rparr>)
          = Some [DLOG ''Reporting status: %s'', Publish_state m] \<and> battery_level m = - 3)
   \<and> sendStatus True RoombaState_zero = None
   \<and> loop \<lparr>ENABLE_ADC_SLEEP = False, ROOMBA_650_SLEEP_FIX = False\<rparr>
        \<lparr>millis_loop = 10001, connected = True, connect_ok = True, battery_low = False,
         polled = \<lparr>received = False, roombaPacket = replicate 100 0, packetLength = 0\<rparr>,
         millis_parse = 10001\<rparr>
        globals_init = Undefined"
proof -
  let ?env = "\<lparr>millis_loop = 10001, connected = True, connect_ok = True, battery_low = False,
         polled = \<lparr>received = False, roombaPacket = replicate 100 0, packetLength = 0\<rparr>,
         millis_parse = 10001\<rparr>"
  let ?cfg = "\<lparr>ENABLE_ADC_SLEEP = False, ROOMBA_650_SLEEP_FIX = False\<rparr>"
  have a: "\<exists>m. sendStatus True (RoombaState_zero\<lparr>charge := 2000, capacity := 2600\<rparr>)
          = Some [DLOG ''Reporting status: %s'', Publish_state m] \<and> battery_level m = 76"
    using battery_level_division [of "RoombaState_zero\<lparr>charge := 2000, capacity := 2600\<rparr>" ?env ?cfg]
    by simp
  have b: "\<exists>m. sendStatus True (RoombaState_zero\<lparr>charge := 0xFF9C, capacity := 2600\<rparr>)
          = Some [DLOG ''Reporting status: %s'', Publish_state m] \<and> battery_level m = - 3"
    using battery_level_division [of "RoombaState_zero\<lparr>charge := 0xFF9C, capacity := 2600\<rparr>" ?env ?cfg]
    by simp
  have c: "sendStatus True RoombaState_zero = None
     \<and> loop ?cfg ?env globals_init = Undefined"
    using battery_level_division [of RoombaState_zero ?env ?cfg]
    by simp
  from a b c show ?thesis by blast
qed

section \<open>Cleaning and docked\<close>

text \<open>
  Claim C1, as stated, fails: a decode with current 0 sets \<open>docked\<close>, and the command
  \<open>turn_on\<close> then sets \<open>cleaning\<close> without clearing \<open>docked\<close>.
\<close>

theorem cleaning_and_docked_counterexample:
  "apply_ops
     [Decode \<lparr>received = True, roombaPacket = [23, 0, 0] @ replicate 97 0, packetLength = 3\<rparr> 9,
      Translate ''turn_on'']
     RoombaState_zero
   = Some \<lparr>distance = 0, chargingState = 0, voltage = 0, current = 0, charge = 0, capacity = 0,
           cleaning = True, docked = True, timestamp = 9, sent = False\<rparr>"
proof -
  have "parse_loop ([23, 0, 0] @ replicate 97 0) 3 0 (RoombaState_zero\<lparr>timestamp := 9\<rparr>)
          = Some (True, RoombaState_zero\<lparr>timestamp := 9, current := 0\<rparr>)"
    by (simp add: parse_loop.simps decode_entry_def read_be16_def read_byte_def be16_def)
  then show ?thesis
    by (simp add: readSensorPacket_def parseRoombaStateFromStreamPacket_def estimate_def Let_def
                  performCommand_def RoombaState_zero_def)
qed

lemma readSensorPacket_exclusive:
  "readSensorPacket p now st = Some st' \<Longrightarrow> \<not> (cleaning st \<and> docked st) \<Longrightarrow>
     \<not> (cleaning st' \<and> docked st')"
  by (auto simp: readSensorPacket_def estimate_def Let_def split: if_splits option.splits)

lemma performCommand_docked:
  "docked (fst (snd (performCommand cmd st))) = docked st"
  by (simp add: performCommand_def)

lemma performCommand_sets_cleaning:
  "sets_cleaning (Translate cmd) \<Longrightarrow> cleaning (fst (snd (performCommand cmd st)))"
  by (auto simp: performCommand_def)

lemma performCommand_exclusive:
  "(if sets_cleaning (Translate cmd) then \<not> docked st else True) \<Longrightarrow>
     \<not> (cleaning st \<and> docked st) \<Longrightarrow>
     \<not> (cleaning (fst (snd (performCommand cmd st))) \<and> docked (fst (snd (performCommand cmd st))))"
  by (auto simp: performCommand_def split: if_splits)

lemma apply_ops_exclusive:
  "issued_off_dock ops st \<Longrightarrow> apply_ops ops st = Some st' \<Longrightarrow>
     \<not> (cleaning st \<and> docked st) \<Longrightarrow> \<not> (cleaning st' \<and> docked st')"
proof (induction ops arbitrary: st)
  case Nil
  then show ?case by simp
next
  case (Cons x ops)
  from Cons.prems(2) obtain st1 where s1: "apply_op x st = Some st1"
    and rest: "apply_ops ops st1 = Some st'"
    by (auto split: option.splits)
  from Cons.prems(1) s1 have here: "if sets_cleaning x then \<not> docked st else True"
    and later: "issued_off_dock ops st1"
    by (simp_all split: if_splits)
  have "\<not> (cleaning st1 \<and> docked st1)"
  proof (cases x)
    case (Decode p now)
    with s1 Cons.prems(3) show ?thesis
      using readSensorPacket_exclusive [of p now st st1] by simp
  next
    case (Translate cmd)
    from performCommand_exclusive [of cmd st] here Cons.prems(3) Translate s1
    show ?thesis by auto
  qed
  from Cons.IH [OF later rest this] show ?case .
qed

text \<open>
  Claim C1, amended. In every state reached from the zero-valued initial state by calls
  of \<open>readSensorPacket\<close> and by command translations in which \<open>turn_on\<close>, \<open>clean_spot\<close> and
  \<open>return_to_base\<close> are issued only while \<open>docked\<close> is false, \<open>cleaning\<close> and \<open>docked\<close> are
  not both true. Whatever the state before, they are not both true right after a
  successful decode. A command translation never writes \<open>docked\<close>, and after it both flags
  are true exactly when \<open>docked\<close> was true before and either the token is one of those three
  or \<open>cleaning\<close> was true before and the token is not \<open>turn_off\<close>. Both flags are false in
  the initial state.
\<close>

theorem cleaning_and_docked_exclusive:
  "(issued_off_dock ops RoombaState_zero \<and> apply_ops ops RoombaState_zero = Some st
      \<longrightarrow> \<not> (cleaning st \<and> docked st))
   \<and> (received p \<and> parseRoombaStateFromStreamPacket (roombaPacket p) (uint (packetLength p)) now
         RoombaState_zero = Some (True, rs)
      \<longrightarrow> (\<exists>st1. readSensorPacket p now st0 = Some st1 \<and> \<not> (cleaning st1 \<and> docked st1)))
   \<and> (cleaning (fst (snd (performCommand cmd st0))) \<and> docked (fst (snd (performCommand cmd st0))))
       = (docked st0 \<and> (sets_cleaning (Translate cmd) \<or> (cleaning st0 \<and> cmd \<noteq> ''turn_off'')))
   \<and> docked (fst (snd (performCommand cmd st0))) = docked st0
   \<and> \<not> cleaning RoombaState_zero \<and> \<not> docked RoombaState_zero"
proof (intro conjI impI)
  assume "issued_off_dock ops RoombaState_zero \<and> apply_ops ops RoombaState_zero = Some st"
  moreover have "\<not> (cleaning RoombaState_zero \<and> docked RoombaState_zero)"
    by (simp add: RoombaState_zero_def)
  ultimately show "\<not> (cleaning st \<and> docked st)"
    using apply_ops_exclusive [of ops RoombaState_zero st] by blast
next
  assume "received p \<and> parseRoombaStateFromStreamPacket (roombaPacket p)
            (uint (packetLength p)) now RoombaState_zero = Some (True, rs)"
  then show "\<exists>st1. readSensorPacket p now st0 = Some st1 \<and> \<not> (cleaning st1 \<and> docked st1)"
    by (simp add: readSensorPacket_def estimate_def Let_def)
next
  show "(cleaning (fst (snd (performCommand cmd st0))) \<and> docked (fst (snd (performCommand cmd st0))))
       = (docked st0 \<and> (sets_cleaning (Translate cmd) \<or> (cleaning st0 \<and> cmd \<noteq> ''turn_off'')))"
    by (auto simp: performCommand_def)
next
  show "docked (fst (snd (performCommand cmd st0))) = docked st0"
    by (rule performCommand_docked)
qed (simp_all add: RoombaState_zero_def)


theorem cleaning_and_docked_exclusive_witness:
  "apply_ops
     [Translate ''turn_on'',
      Decode \<lparr>received = True, roombaPacket = [23, 0, 0] @ replicate 97 0, packetLength = 3\<rparr> 9,
      Translate ''stop'']
     RoombaState_zero
   = Some \<lparr>distance = 0, chargingState = 0, voltage = 0, current = 0, charge = 0, capacity = 0,
           cleaning = False, docked = True, timestamp = 9, sent = False\<rparr>
   \<and> readSensorPacket
       \<lparr>received = True, roombaPacket = [23, 0xFE, 0x0C] @ replicate 97 0, packetLength = 3\<rparr> 12
       \<lparr>distance = 0, chargingState = 0, voltage = 0, current = 0, charge = 0, capacity = 0,
        cleaning = True, docked = True, timestamp = 9, sent = False\<rparr>
   = Some \<lparr>distance = 0, chargingState = 0, voltage = 0, current = 0xFE0C, charge = 0,
           capacity = 0, cleaning = True, docked = False, timestamp = 12, sent = False\<rparr>
   \<and> fst (snd (performCommand ''return_to_base''
        \<lparr>distance = 0, chargingState = 0, voltage = 0, current = 0, charge = 0, capacity = 0,
         cleaning = False, docked = True, timestamp = 9, sent = False\<rparr>))
   = \<lparr>distance = 0, chargingState = 0, voltage = 0, current = 0, charge = 0, capacity = 0,
      cleaning = True, docked = True, timestamp = 9, sent = False\<rparr>"
proof -
  let ?ops = "[Translate ''turn_on'',
               Decode \<lparr>received = True, roombaPacket = [23, 0, 0] @ replicate 97 0,
                       packetLength = 3\<rparr> 9,
               Translate ''stop'']"
  let ?st = "\<lparr>distance = 0, chargingState = 0, voltage = 0, current = 0, charge = 0,
              capacity = 0, cleaning = False, docked = True, timestamp = 9, sent = False\<rparr>"
  let ?p = "\<lparr>received = True, roombaPacket = [23, 0xFE, 0x0C] @ replicate 97 0, packetLength = 3\<rparr>"
  let ?both = "\<lparr>distance = 0, chargingState = 0, voltage = 0, current = 0, charge = 0,
        capacity = 0, cleaning = True, docked = True, timestamp = 9, sent = False\<rparr>"
  have d: "parse_loop ([23, 0, 0] @ replicate 97 0) 3 0 (RoombaState_zero\<lparr>timestamp := 9\<rparr>)
          = Some (True, RoombaState_zero\<lparr>timestamp := 9, current := 0\<rparr>)"
    by (simp add: parse_loop.simps decode_entry_def read_be16_def read_byte_def be16_def)
  have e: "parseRoombaStateFromStreamPacket ([23, 0xFE, 0x0C] @ replicate 97 0) 3 12 RoombaState_zero
          = Some (True, RoombaState_zero\<lparr>timestamp := 12, current := 0xFE0C\<rparr>)"
    by (simp add: parseRoombaStateFromStreamPacket_def parse_loop.simps decode_entry_def
                  read_be16_def read_byte_def be16_def)
  have run: "apply_ops ?ops RoombaState_zero = Some ?st"
    using d
    by (simp add: readSensorPacket_def parseRoombaStateFromStreamPacket_def estimate_def Let_def
                  performCommand_def RoombaState_zero_def)
  have off: "issued_off_dock ?ops RoombaState_zero"
    using d
    by (simp add: readSensorPacket_def parseRoombaStateFromStreamPacket_def estimate_def Let_def
                  performCommand_def RoombaState_zero_def)
  have dec: "readSensorPacket ?p 12 ?both
      = Some \<lparr>distance = 0, chargingState = 0, voltage = 0, current = 0xFE0C, charge = 0,
           capacity = 0, cleaning = True, docked = False, timestamp = 12, sent = False\<rparr>"
    using e by (simp add: readSensorPacket_def estimate_def Let_def RoombaState_zero_def)
  have rcv: "received ?p \<and> parseRoombaStateFromStreamPacket (roombaPacket ?p)
               (uint (packetLength ?p)) 12 RoombaState_zero
             = Some (True, RoombaState_zero\<lparr>timestamp := 12, current := 0xFE0C\<rparr>)"
    using e by simp
  have base: "fst (snd (performCommand ''return_to_base'' ?st)) = ?both"
    by (simp add: performCommand_def)
  note inst = cleaning_and_docked_exclusive
         [where ops = ?ops and st = ?st and p = ?p and now = 12
            and rs = "RoombaState_zero\<lparr>timestamp := 12, current := 0xFE0C\<rparr>"
            and ?st0.0 = ?both and cmd = "''return_to_base''"]
  from inst run off rcv
  have "\<not> (cleaning ?st \<and> docked ?st)
        \<and> (\<exists>st1. readSensorPacket ?p 12 ?both = Some st1 \<and> \<not> (cleaning st1 \<and> docked st1))"
    by blast
  with run dec base show ?thesis by simp
qed

section \<open>The publish tick\<close>

lemma published_append [simp]: "published (xs @ ys) = published xs @ published ys"
  by (induction xs rule: published.induct) simp_all

lemma published_wakeup [simp]: "published wakeup = []"
  by (simp add: wakeup_def)

lemma published_wakeOnDock [simp]: "published (wakeOnDock cfg) = []"
  by (simp add: wakeOnDock_def)

lemma published_reconnect [simp]: "published (reconnect ok) = []"
  by (simp add: reconnect_def)

lemma published_sendConfig [simp]: "published (sendConfig link) = []"
  by (simp add: sendConfig_def)

lemma published_sleepIfNecessary [simp]: "published (fst (sleepIfNecessary cfg low link)) = []"
  by (simp add: sleepIfNecessary_def)

lemma connect_block_frame:
  "connect_block env g = (g1, link, acts) \<Longrightarrow>
     roombaState g1 = roombaState g \<and> OTAStarted g1 = OTAStarted g
     \<and> lastStateMsgTime g1 = lastStateMsgTime g \<and> published acts = []"
  by (auto simp: connect_block_def Let_def split: if_splits)

lemma wake_block_frame:
  "wake_block cfg env g = (g1, acts) \<Longrightarrow>
     roombaState g1 = roombaState g \<and> OTAStarted g1 = OTAStarted g
     \<and> lastStateMsgTime g1 = lastStateMsgTime g \<and> published acts = []"
  by (auto simp: wake_block_def Let_def split: if_splits)

lemma performCommand_frame:
  "performCommand cmd st = (ok, st', acts) \<Longrightarrow>
     sent st' = sent st \<and> timestamp st' = timestamp st \<and> published acts = []"
  by (auto simp: performCommand_def split: if_splits)

lemma mqttCallback_frame:
  "mqttCallback ct topic payload st = (st', acts) \<Longrightarrow>
     sent st' = sent st \<and> timestamp st' = timestamp st \<and> published acts = []"
  by (auto simp: mqttCallback_def split: if_splits prod.splits dest: performCommand_frame)

lemma publish_block_not_due:
  "\<not> 10000 < sint (millis_loop env - lastStateMsgTime g) \<Longrightarrow>
     publish_block cfg env link g = Continue g []"
  by (simp add: publish_block_def Let_def)

lemma publish_block_skips:
  assumes "10000 < sint (millis_loop env - lastStateMsgTime g)"
    and "30000 < sint (millis_loop env - timestamp (roombaState g)) \<or> sent (roombaState g)"
  shows "publish_block cfg env link g =
           (if snd (sleepIfNecessary cfg (battery_low env) link)
            then Asleep ([DLOG ''Roomba state already sent (%.1fs old)'', DLOG ''Request stream'',
                          Roomba_stream sensors] @ fst (sleepIfNecessary cfg (battery_low env) link))
            else Continue (g\<lparr>lastStateMsgTime := millis_loop env\<rparr>)
                   ([DLOG ''Roomba state already sent (%.1fs old)'', DLOG ''Request stream'',
                     Roomba_stream sensors] @ fst (sleepIfNecessary cfg (battery_low env) link)))"
  using assms by (auto simp: publish_block_def Let_def split: prod.splits)

lemma publish_block_sends:
  assumes "10000 < sint (millis_loop env - lastStateMsgTime g)"
    and "\<not> 30000 < sint (millis_loop env - timestamp (roombaState g))"
    and "\<not> sent (roombaState g)"
    and "sendStatus link (roombaState g) = Some acts"
  shows "publish_block cfg env link g =
           (if snd (sleepIfNecessary cfg (battery_low env) link)
            then Asleep (acts @ fst (sleepIfNecessary cfg (battery_low env) link))
            else Continue (g\<lparr>lastStateMsgTime := millis_loop env,
                             roombaState := (roombaState g)\<lparr>sent := True\<rparr>\<rparr>)
                   (acts @ fst (sleepIfNecessary cfg (battery_low env) link)))"
  using assms by (auto simp: publish_block_def Let_def split: prod.splits)

lemma publish_block_undefined:
  assumes "10000 < sint (millis_loop env - lastStateMsgTime g)"
    and "\<not> 30000 < sint (millis_loop env - timestamp (roombaState g))"
    and "\<not> sent (roombaState g)"
    and "sendStatus link (roombaState g) = None"
  shows "publish_block cfg env link g = Undefined"
  using assms by (auto simp: publish_block_def Let_def split: prod.splits)

lemma publish_block_only_if:
  assumes "published (actions_of (publish_block cfg env link g)) \<noteq> []"
  shows "10000 < sint (millis_loop env - lastStateMsgTime g)
         \<and> \<not> 30000 < sint (millis_loop env - timestamp (roombaState g))
         \<and> \<not> sent (roombaState g)"
proof -
  have due: "10000 < sint (millis_loop env - lastStateMsgTime g)"
    using assms publish_block_not_due [of env g cfg link] by (cases "10000 < sint (millis_loop env - lastStateMsgTime g)") auto
  have "\<not> (30000 < sint (millis_loop env - timestamp (roombaState g)) \<or> sent (roombaState g))"
  proof
    assume "30000 < sint (millis_loop env - timestamp (roombaState g)) \<or> sent (roombaState g)"
    from publish_block_skips [OF due this, of cfg link] assms show False
      by (simp split: if_splits)
  qed
  with due show ?thesis by simp
qed

lemma readSensorPacket_quiet:
  "quiet (Loop env) \<Longrightarrow> readSensorPacket (polled env) (millis_parse env) st = Some st"
  by (auto simp: readSensorPacket_def split: if_splits option.splits)

lemma loop_only_if:
  assumes "published (actions_of (loop cfg env g)) \<noteq> []"
  shows "\<not> OTAStarted g
         \<and> 10000 < sint (millis_loop env - lastStateMsgTime g)
         \<and> \<not> 30000 < sint (millis_loop env - timestamp (roombaState g))
         \<and> \<not> sent (roombaState g)"
proof -
  obtain g1 link a1 where c: "connect_block env g = (g1, link, a1)"
    by (cases "connect_block env g") auto
  obtain g2 a2 where w: "wake_block cfg env g1 = (g2, a2)"
    by (cases "wake_block cfg env g1") auto
  note f1 = connect_block_frame [OF c] and f2 = wake_block_frame [OF w]
  have ota: "\<not> OTAStarted g"
    using assms by (auto simp: loop_def)
  have "published (actions_of (publish_block cfg env link g2)) \<noteq> []"
    using assms ota c w f1 f2
    by (cases "publish_block cfg env link g2")
       (auto simp: loop_def split: option.splits)
  from publish_block_only_if [OF this] f1 f2 ota show ?thesis by simp
qed

lemma loop_quiet:
  assumes "sent (roombaState g)" and "quiet (Loop env)"
  shows "published (actions_of (loop cfg env g)) = []
         \<and> loop cfg env g \<noteq> Undefined
         \<and> (\<forall>g' acts. loop cfg env g = Continue g' acts \<longrightarrow> roombaState g' = roombaState g)"
proof (cases "OTAStarted g")
  case True
  then show ?thesis by (simp add: loop_def)
next
  case False
  obtain g1 link a1 where c: "connect_block env g = (g1, link, a1)"
    by (cases "connect_block env g") auto
  obtain g2 a2 where w: "wake_block cfg env g1 = (g2, a2)"
    by (cases "wake_block cfg env g1") auto
  note f1 = connect_block_frame [OF c] and f2 = wake_block_frame [OF w]
  have s2: "sent (roombaState g2)" using assms(1) f1 f2 by simp
  show ?thesis
  proof (cases "10000 < sint (millis_loop env - lastStateMsgTime g2)")
    case due: True
    from publish_block_skips [OF due, of cfg link] s2
    show ?thesis
      using False c w f1 f2 readSensorPacket_quiet [OF assms(2)]
      by (simp add: loop_def)
  next
    case nd: False
    from publish_block_not_due [OF nd, of cfg link]
    show ?thesis
      using False c w f1 f2 readSensorPacket_quiet [OF assms(2)]
      by (simp add: loop_def)
  qed
qed

lemma published_replicate_delay: "published (replicate n (Delay d)) = []"
  by (induction n) simp_all

lemma debugCallback_frame:
  "published (actions_of (debugCallback cmd ntp st)) = []
   \<and> debugCallback cmd ntp st \<noteq> Undefined
   \<and> (\<forall>st' acts. debugCallback cmd ntp st = Continue st' acts \<longrightarrow>
         sent st' = sent st \<and> timestamp st' = timestamp st)"
proof -
  obtain ok st1 acts1 where m: "performCommand cmd st = (ok, st1, acts1)"
    by (cases "performCommand cmd st") auto
  note f = performCommand_frame [OF m]
  obtain tacts returns where d: "setDateTime ntp = (tacts, returns)"
    by (cases "setDateTime ntp") auto
  then have t: "published tacts = []"
    by (cases ntp) (auto simp: setDateTime_def published_replicate_delay)
  show ?thesis
    using f t by (simp add: debugCallback_def m d)
qed

lemma step_quiet:
  assumes "sent (roombaState g)" and "quiet ev"
  shows "published (actions_of (step cfg ct ev g)) = []
         \<and> step cfg ct ev g \<noteq> Undefined
         \<and> (\<forall>g' acts. step cfg ct ev g = Continue g' acts \<longrightarrow>
               sent (roombaState g') \<and> timestamp (roombaState g') = timestamp (roombaState g))"
proof (cases ev)
  case (Loop env)
  from assms(2) have "quiet (Loop env)" unfolding Loop .
  from loop_quiet [OF assms(1) this, of cfg]
  have p: "published (actions_of (loop cfg env g)) = []"
    and u: "loop cfg env g \<noteq> Undefined"
    and k: "\<And>g' acts. loop cfg env g = Continue g' acts \<Longrightarrow> roombaState g' = roombaState g"
    by blast+
  show ?thesis
  proof (cases "loop cfg env g")
    case Undefined
    with u show ?thesis by simp
  next
    case (Asleep acts)
    with p show ?thesis unfolding Loop by simp
  next
    case (Blocked acts)
    with p show ?thesis unfolding Loop by simp
  next
    case (Continue g' acts)
    from k [OF Continue] p assms(1) Continue show ?thesis unfolding Loop by simp
  qed
next
  case (MqttMessage topic payload)
  obtain st' acts where m: "mqttCallback ct topic payload (roombaState g) = (st', acts)"
    by (cases "mqttCallback ct topic payload (roombaState g)") auto
  from mqttCallback_frame [OF m] m MqttMessage assms(1) show ?thesis by simp
next
  case (DebugCommand cmd ntp)
  from debugCallback_frame [of cmd ntp "roombaState g"]
  have p: "published (actions_of (debugCallback cmd ntp (roombaState g))) = []"
    and u: "debugCallback cmd ntp (roombaState g) \<noteq> Undefined"
    and k: "\<And>st' acts. debugCallback cmd ntp (roombaState g) = Continue st' acts \<Longrightarrow>
              sent st' = sent (roombaState g) \<and> timestamp st' = timestamp (roombaState g)"
    by blast+
  show ?thesis
  proof (cases "debugCallback cmd ntp (roombaState g)")
    case Undefined
    with u show ?thesis by simp
  next
    case (Asleep acts)
    with p show ?thesis unfolding DebugCommand by simp
  next
    case (Blocked acts)
    with p show ?thesis unfolding DebugCommand by simp
  next
    case (Continue st' acts)
    from k [OF Continue] p assms(1) Continue show ?thesis unfolding DebugCommand by simp
  qed
next
  case OTAStart
  then show ?thesis using assms(1) by (simp add: onOTAStart_def)
qed

lemma run_quiet:
  assumes "sent (roombaState g)" and "\<forall>ev \<in> set evs. quiet ev"
  shows "published (actions_of (run cfg ct evs g)) = []
         \<and> run cfg ct evs g \<noteq> Undefined
         \<and> (\<forall>g' acts. run cfg ct evs g = Continue g' acts \<longrightarrow>
               sent (roombaState g') \<and> timestamp (roombaState g') = timestamp (roombaState g))"
  using assms
proof (induction evs arbitrary: g)
  case Nil
  then show ?case by simp
next
  case (Cons ev evs)
  from Cons.prems have q: "quiet ev" and qs: "\<forall>e \<in> set evs. quiet e" by simp_all
  from step_quiet [OF Cons.prems(1) q, of cfg ct]
  have p: "published (actions_of (step cfg ct ev g)) = []"
    and u: "step cfg ct ev g \<noteq> Undefined"
    and k: "\<And>g' acts. step cfg ct ev g = Continue g' acts \<Longrightarrow>
              sent (roombaState g') \<and> timestamp (roombaState g') = timestamp (roombaState g)"
    by blast+
  show ?case
  proof (cases "step cfg ct ev g")
    case Undefined
    with u show ?thesis by simp
  next
    case (Asleep acts)
    with p show ?thesis by simp
  next
    case (Blocked acts)
    with p show ?thesis by simp
  next
    case (Continue g1 acts)
    from k [OF Continue] have s1: "sent (roombaState g1)"
      and t1: "timestamp (roombaState g1) = timestamp (roombaState g)" by simp_all
    from p Continue have p1: "published acts = []" by simp
    from Cons.IH [OF s1 qs]
    have rp: "published (actions_of (run cfg ct evs g1)) = []"
      and ru: "run cfg ct evs g1 \<noteq> Undefined"
      and rk: "\<And>g' as. run cfg ct evs g1 = Continue g' as \<Longrightarrow>
              sent (roombaState g') \<and> timestamp (roombaState g') = timestamp (roombaState g1)"
      by blast+
    show ?thesis
    proof (cases "run cfg ct evs g1")
      case Undefined
      with ru show ?thesis by simp
    next
      case (Asleep as)
      with rp p1 Continue show ?thesis by simp
    next
      case (Blocked as)
      with rp p1 Continue show ?thesis by simp
    next
      case c2: (Continue g2 as)
      from rk [OF c2] rp p1 t1 Continue c2 show ?thesis by simp
    qed
  qed
qed

lemma successful_decode_unsent:
  assumes "received p"
    and "parseRoombaStateFromStreamPacket (roombaPacket p) (uint (packetLength p)) now
           RoombaState_zero = Some (True, rs)"
  shows "\<exists>st'. readSensorPacket p now st = Some st' \<and> \<not> sent st' \<and> timestamp st' = now"
proof -
  from assms(2)
  have "parse_loop (roombaPacket p) (uint (packetLength p)) 0 (RoombaState_zero\<lparr>timestamp := now\<rparr>)
          = Some (True, rs)"
    by (simp add: parseRoombaStateFromStreamPacket_def)
  from parse_loop_frame(3,4) [OF this] have "\<not> sent rs" "timestamp rs = now"
    by (simp_all add: RoombaState_zero_def)
  then show ?thesis using assms
    by (simp add: readSensorPacket_def estimate_def Let_def)
qed

text \<open>While a sample is younger than \<open>2 ^ 31\<close> ms the signed difference is its age.\<close>

lemma sint_difference_is_age:
  assumes "sample_age now st < 2 ^ 31"
  shows "sint (now - timestamp st) = sample_age now st"
proof -
  let ?d = "now - timestamp st"
  have lo: "- (2 ^ 31) \<le> uint ?d"
  proof -
    have "- (2 ^ 31) \<le> (0 :: int)" by simp
    also have "0 \<le> uint ?d" by (rule uint_nonnegative)
    finally show ?thesis .
  qed
  have hi: "uint ?d < 2 ^ 31"
    using assms by (simp add: sample_age_def)
  have "sint ?d = signed_take_bit 31 (uint ?d)"
    by (simp add: sint_uint)
  also have "\<dots> = uint ?d"
    using lo hi by (rule signed_take_bit_int_eq_self)
  finally show ?thesis by (simp add: sample_age_def)
qed

lemma connect_block_no_stream:
  "connect_block env g = (g1, link, acts) \<Longrightarrow> Roomba_stream sensors \<notin> set acts"
  by (auto simp: connect_block_def Let_def reconnect_def sendConfig_def split: if_splits)

lemma wake_block_no_stream:
  "wake_block cfg env g = (g1, acts) \<Longrightarrow> Roomba_stream sensors \<notin> set acts"
  by (auto simp: wake_block_def Let_def wakeup_def wakeOnDock_def split: if_splits)

lemma sleepIfNecessary_no_stream:
  "Roomba_stream sensors \<notin> set (fst (sleepIfNecessary cfg low link))"
  by (simp add: sleepIfNecessary_def)

lemma loop_skips:
  assumes ota: "\<not> OTAStarted g"
    and due: "10000 < sint (millis_loop env - lastStateMsgTime g)"
    and old: "30000 < sint (millis_loop env - timestamp (roombaState g)) \<or> sent (roombaState g)"
    and def: "loop cfg env g \<noteq> Undefined"
  shows "published (actions_of (loop cfg env g)) = []
         \<and> Roomba_stream sensors \<in> set (actions_of (loop cfg env g))"
proof -
  obtain g1 link a1 where c: "connect_block env g = (g1, link, a1)"
    by (cases "connect_block env g") auto
  obtain g2 a2 where w: "wake_block cfg env g1 = (g2, a2)"
    by (cases "wake_block cfg env g1") auto
  note f1 = connect_block_frame [OF c] and f2 = wake_block_frame [OF w]
  from due f1 f2 have due2: "10000 < sint (millis_loop env - lastStateMsgTime g2)" by simp
  from old f1 f2
  have old2: "30000 < sint (millis_loop env - timestamp (roombaState g2)) \<or> sent (roombaState g2)"
    by simp
  note sk = publish_block_skips [OF due2 old2, of cfg link]
  show ?thesis
    using ota def c w f1 f2
    by (cases "readSensorPacket (polled env) (millis_parse env) (roombaState g2)")
       (simp_all add: loop_def sk split: if_splits)
qed

lemma loop_sends:
  assumes ota: "\<not> OTAStarted g"
    and due: "10000 < sint (millis_loop env - lastStateMsgTime g)"
    and fresh: "\<not> 30000 < sint (millis_loop env - timestamp (roombaState g))"
    and unsent: "\<not> sent (roombaState g)"
    and cap: "capacity (roombaState g) \<noteq> 0"
    and up: "fst (snd (connect_block env g))"
    and def: "loop cfg env g \<noteq> Undefined"
  shows "length (published (actions_of (loop cfg env g))) = 1
         \<and> Roomba_stream sensors \<notin> set (actions_of (loop cfg env g))"
proof -
  obtain g1 link a1 where c: "connect_block env g = (g1, link, a1)"
    by (cases "connect_block env g") auto
  obtain g2 a2 where w: "wake_block cfg env g1 = (g2, a2)"
    by (cases "wake_block cfg env g1") auto
  note f1 = connect_block_frame [OF c] and f2 = wake_block_frame [OF w]
  note n1 = connect_block_no_stream [OF c] and n2 = wake_block_no_stream [OF w]
  from up c have link: "link" by simp
  from due f1 f2 have due2: "10000 < sint (millis_loop env - lastStateMsgTime g2)" by simp
  from fresh f1 f2
  have fresh2: "\<not> 30000 < sint (millis_loop env - timestamp (roombaState g2))" by simp
  from unsent f1 f2 have unsent2: "\<not> sent (roombaState g2)" by simp
  from cap f1 f2 obtain acts where ss: "sendStatus True (roombaState g2) = Some acts"
    and pa: "length (published acts) = 1" and ns: "Roomba_stream sensors \<notin> set acts"
    by (auto simp: sendStatus_def c_div_def uint_0_iff)
  note sd = publish_block_sends [OF due2 fresh2 unsent2 ss, of cfg]
  show ?thesis
    using ota def c w f1 f2 n1 n2 link pa ns sleepIfNecessary_no_stream [of cfg "battery_low env" True]
    by (cases "readSensorPacket (polled env) (millis_parse env)
                 ((roombaState g2)\<lparr>sent := True\<rparr>)")
       (simp_all add: loop_def sd split: if_splits)
qed

text \<open>
  Claim C5, as stated, fails: the test of line 578 compares the signed 32-bit difference
  of clock and time stamp with 30000. For an unsent sample that is 2147483649 ms old the
  difference has wrapped to -2147483647, and the pass publishes the sample.
\<close>

theorem stale_sample_is_published_counterexample:
  "published (actions_of (loop
      \<lparr>ENABLE_ADC_SLEEP = False, ROOMBA_650_SLEEP_FIX = False\<rparr>
      \<lparr>millis_loop = 2147523654, connected = True, connect_ok = True, battery_low = False,
       polled = \<lparr>received = False, roombaPacket = replicate 100 0, packetLength = 0\<rparr>,
       millis_parse = 2147523654\<rparr>
      \<lparr>roombaState =
         \<lparr>distance = 0, chargingState = 0, voltage = 0, current = 0, charge = 2000,
          capacity = 2600, cleaning = False, docked = True, timestamp = 40005, sent = False\<rparr>,
       lastStateMsgTime = 2147513653, lastWakeupTime = 2147513653,
       lastConnectTime = 2147513653, configLoop = 0, OTAStarted = False\<rparr>))
    = [\<lparr>battery_level = 76, json_cleaning = False, json_docked = True, charging = False,
        json_voltage = 0, json_current = 0, json_charge = 2000, json_state = ''docked''\<rparr>]
   \<and> sample_age 2147523654
        \<lparr>distance = 0, chargingState = 0, voltage = 0, current = 0, charge = 2000,
         capacity = 2600, cleaning = False, docked = True, timestamp = 40005, sent = False\<rparr>
     = 2147483649"
  by (simp add: loop_def connect_block_def wake_block_def publish_block_def sendStatus_def
                c_div_def sleepIfNecessary_def readSensorPacket_def sample_age_def Let_def)

text \<open>
  Claim C5, amended. A pass of \<open>loop\<close> publishes a status only if no OTA update runs, the
  publish interval of 10 s has elapsed, the sample is not marked sent and the signed
  32-bit difference of the clock and the sample's time stamp is at most 30000; for a
  sample younger than \<open>2 ^ 31\<close> ms that difference is its age, so such a sample is
  published only if it is at most 30 s old. On a publish tick with a sample that is stale
  by this test or marked sent, a pass that is not undefined publishes nothing and requests
  the telemetry stream; on a publish tick with a fresh unsent sample, capacity not 0 and
  the link up, it publishes exactly one status and requests no stream; the same holds of
  the publish block alone, which then marks the sample sent. Hence from a state whose
  sample is marked sent, no sequence of passes of \<open>loop\<close> without a successful decode, MQTT
  messages, console commands and OTA starts publishes a status, whether or not the
  staleness window elapses on the way, and the sample stays marked sent; only a
  successful decode produces an unsent sample again.
  (\<open>published\<close> collects the statuses of \<open>sendStatus\<close>; the synthetic low-battery
  message of \<open>sleepIfNecessary\<close> is an action of its own and describes no sample.)
\<close>

theorem sent_sample_is_not_republished:
  "(published (actions_of (loop cfg env g)) \<noteq> [] \<longrightarrow>
      \<not> OTAStarted g
      \<and> 10000 < sint (millis_loop env - lastStateMsgTime g)
      \<and> \<not> 30000 < sint (millis_loop env - timestamp (roombaState g))
      \<and> \<not> sent (roombaState g))
   \<and> (published (actions_of (loop cfg env g)) \<noteq> []
        \<and> sample_age (millis_loop env) (roombaState g) < 2 ^ 31 \<longrightarrow>
      sample_age (millis_loop env) (roombaState g) \<le> 30000)
   \<and> (\<not> OTAStarted g
        \<and> 10000 < sint (millis_loop env - lastStateMsgTime g)
        \<and> (30000 < sint (millis_loop env - timestamp (roombaState g)) \<or> sent (roombaState g))
        \<and> loop cfg env g \<noteq> Undefined \<longrightarrow>
      published (actions_of (loop cfg env g)) = []
      \<and> Roomba_stream sensors \<in> set (actions_of (loop cfg env g)))
   \<and> (\<not> OTAStarted g
        \<and> 10000 < sint (millis_loop env - lastStateMsgTime g)
        \<and> \<not> 30000 < sint (millis_loop env - timestamp (roombaState g))
        \<and> \<not> sent (roombaState g) \<and> capacity (roombaState g) \<noteq> 0
        \<and> fst (snd (connect_block env g))
        \<and> loop cfg env g \<noteq> Undefined \<longrightarrow>
      length (published (actions_of (loop cfg env g))) = 1
      \<and> Roomba_stream sensors \<notin> set (actions_of (loop cfg env g)))
   \<and> (10000 < sint (millis_loop env - lastStateMsgTime g)
        \<and> (30000 < sint (millis_loop env - timestamp (roombaState g)) \<or> sent (roombaState g)) \<longrightarrow>
      published (actions_of (publish_block cfg env link g)) = []
      \<and> Roomba_stream sensors \<in> set (actions_of (publish_block cfg env link g)))
   \<and> (10000 < sint (millis_loop env - lastStateMsgTime g)
        \<and> \<not> 30000 < sint (millis_loop env - timestamp (roombaState g))
        \<and> \<not> sent (roombaState g) \<and> capacity (roombaState g) \<noteq> 0 \<longrightarrow>
      length (published (actions_of (publish_block cfg env True g))) = 1
      \<and> Roomba_stream sensors \<notin> set (actions_of (publish_block cfg env True g))
      \<and> (\<forall>g' acts. publish_block cfg env True g = Continue g' acts \<longrightarrow> sent (roombaState g')))
   \<and> (sent (roombaState g) \<and> (\<forall>ev \<in> set evs. quiet ev) \<longrightarrow>
      published (actions_of (run cfg ct evs g)) = []
      \<and> run cfg ct evs g \<noteq> Undefined
      \<and> (\<forall>g' acts. run cfg ct evs g = Continue g' acts \<longrightarrow> sent (roombaState g')))
   \<and> (received p \<and> parseRoombaStateFromStreamPacket (roombaPacket p) (uint (packetLength p)) now
         RoombaState_zero = Some (True, rs) \<longrightarrow>
      (\<exists>st'. readSensorPacket p now st = Some st' \<and> \<not> sent st' \<and> timestamp st' = now))"
proof (intro conjI impI)
  assume "published (actions_of (loop cfg env g)) \<noteq> []"
  from loop_only_if [OF this]
  show "\<not> OTAStarted g" "10000 < sint (millis_loop env - lastStateMsgTime g)"
    "\<not> 30000 < sint (millis_loop env - timestamp (roombaState g))" "\<not> sent (roombaState g)"
    by simp_all
next
  assume a: "published (actions_of (loop cfg env g)) \<noteq> []
        \<and> sample_age (millis_loop env) (roombaState g) < 2 ^ 31"
  then have "published (actions_of (loop cfg env g)) \<noteq> []" by simp
  from loop_only_if [OF this]
  have "\<not> 30000 < sint (millis_loop env - timestamp (roombaState g))" by simp
  moreover from a have "sint (millis_loop env - timestamp (roombaState g))
      = sample_age (millis_loop env) (roombaState g)"
    by (simp add: sint_difference_is_age)
  ultimately show "sample_age (millis_loop env) (roombaState g) \<le> 30000" by simp
next
  assume a: "\<not> OTAStarted g
        \<and> 10000 < sint (millis_loop env - lastStateMsgTime g)
        \<and> (30000 < sint (millis_loop env - timestamp (roombaState g)) \<or> sent (roombaState g))
        \<and> loop cfg env g \<noteq> Undefined"
  then have "published (actions_of (loop cfg env g)) = []
         \<and> Roomba_stream sensors \<in> set (actions_of (loop cfg env g))"
    by (intro loop_skips) simp_all
  then show "published (actions_of (loop cfg env g)) = []"
    "Roomba_stream sensors \<in> set (actions_of (loop cfg env g))" by simp_all
next
  assume a: "\<not> OTAStarted g
        \<and> 10000 < sint (millis_loop env - lastStateMsgTime g)
        \<and> \<not> 30000 < sint (millis_loop env - timestamp (roombaState g))
        \<and> \<not> sent (roombaState g) \<and> capacity (roombaState g) \<noteq> 0
        \<and> fst (snd (connect_block env g))
        \<and> loop cfg env g \<noteq> Undefined"
  then have "length (published (actions_of (loop cfg env g))) = 1
         \<and> Roomba_stream sensors \<notin> set (actions_of (loop cfg env g))"
    by (intro loop_sends) simp_all
  then show "length (published (actions_of (loop cfg env g))) = 1"
    "Roomba_stream sensors \<notin> set (actions_of (loop cfg env g))" by simp_all
next
  assume a: "10000 < sint (millis_loop env - lastStateMsgTime g)
        \<and> (30000 < sint (millis_loop env - timestamp (roombaState g)) \<or> sent (roombaState g))"
  then have due: "10000 < sint (millis_loop env - lastStateMsgTime g)"
    and old: "30000 < sint (millis_loop env - timestamp (roombaState g)) \<or> sent (roombaState g)"
    by simp_all
  note sk = publish_block_skips [OF due old, of cfg link]
  show "published (actions_of (publish_block cfg env link g)) = []"
    by (simp add: sk)
  show "Roomba_stream sensors \<in> set (actions_of (publish_block cfg env link g))"
    by (simp add: sk)
next
  assume a: "10000 < sint (millis_loop env - lastStateMsgTime g)
        \<and> \<not> 30000 < sint (millis_loop env - timestamp (roombaState g))
        \<and> \<not> sent (roombaState g) \<and> capacity (roombaState g) \<noteq> 0"
  then obtain acts where ss: "sendStatus True (roombaState g) = Some acts"
    and pa: "length (published acts) = 1" and ns: "Roomba_stream sensors \<notin> set acts"
    by (auto simp: sendStatus_def c_div_def uint_0_iff)
  from a have due: "10000 < sint (millis_loop env - lastStateMsgTime g)"
    and fresh: "\<not> 30000 < sint (millis_loop env - timestamp (roombaState g))"
    and unsent: "\<not> sent (roombaState g)" by simp_all
  note sd = publish_block_sends [OF due fresh unsent ss, of cfg]
  show "length (published (actions_of (publish_block cfg env True g))) = 1"
    using pa by (simp add: sd)
  show "Roomba_stream sensors \<notin> set (actions_of (publish_block cfg env True g))"
    using ns by (auto simp: sd sleepIfNecessary_def)
  show "\<forall>g' acts. publish_block cfg env True g = Continue g' acts \<longrightarrow> sent (roombaState g')"
    by (auto simp: sd split: if_splits)
next
  assume a: "sent (roombaState g) \<and> (\<forall>ev \<in> set evs. quiet ev)"
  then have s: "sent (roombaState g)" and q: "\<forall>ev \<in> set evs. quiet ev" by simp_all
  from run_quiet [OF s q, of cfg ct]
  show "published (actions_of (run cfg ct evs g)) = []" "run cfg ct evs g \<noteq> Undefined"
    "\<forall>g' acts. run cfg ct evs g = Continue g' acts \<longrightarrow> sent (roombaState g')"
    by blast+
next
  assume "received p \<and> parseRoombaStateFromStreamPacket (roombaPacket p) (uint (packetLength p)) now
         RoombaState_zero = Some (True, rs)"
  then show "\<exists>st'. readSensorPacket p now st = Some st' \<and> \<not> sent st' \<and> timestamp st' = now"
    using successful_decode_unsent [of p now rs st] by simp
qed

theorem sent_sample_is_not_republished_witness:
  "published (actions_of (loop
      \<lparr>ENABLE_ADC_SLEEP = False, ROOMBA_650_SLEEP_FIX = False\<rparr>
      \<lparr>millis_loop = 10001, connected = True, connect_ok = True, battery_low = False,
       polled = \<lparr>received = False, roombaPacket = replicate 100 0, packetLength = 0\<rparr>,
       millis_parse = 10001\<rparr>
      (globals_init\<lparr>roombaState :=
         RoombaState_zero\<lparr>current := 0xFE0C, charge := 2000, capacity := 2600, cleaning := True,
                          timestamp := 5000\<rparr>\<rparr>)))
    = [\<lparr>battery_level = 76, json_cleaning = True, json_docked = False, charging = False,
        json_voltage = 0, json_current = - 500, json_charge = 2000, json_state = ''cleaning''\<rparr>]
   \<and> sample_age 10001
        (RoombaState_zero\<lparr>current := 0xFE0C, charge := 2000, capacity := 2600, cleaning := True,
                          timestamp := 5000\<rparr>) = 5001
   \<and> published (actions_of (run
      \<lparr>ENABLE_ADC_SLEEP = False, ROOMBA_650_SLEEP_FIX = False\<rparr> ''vacuum/roomba/command''
      [Loop \<lparr>millis_loop = 20002, connected = True, connect_ok = True, battery_low = False,
             polled = \<lparr>received = False, roombaPacket = replicate 100 0, packetLength = 0\<rparr>,
             millis_parse = 20002\<rparr>,
       MqttMessage ''vacuum/roomba/command'' ''start'',
       DebugCommand ''stream'' None,
       Loop \<lparr>millis_loop = 30003, connected = True, connect_ok = True, battery_low = False,
             polled = \<lparr>received = True, roombaPacket = [5] @ replicate 99 0, packetLength = 1\<rparr>,
             millis_parse = 30003\<rparr>]
      (globals_init\<lparr>lastStateMsgTime := 10001, roombaState :=
         RoombaState_zero\<lparr>current := 0xFE0C, charge := 2000, capacity := 2600, cleaning := True,
                          timestamp := 5000, sent := True\<rparr>\<rparr>)))
    = []
   \<and> Roomba_stream sensors \<in> set (actions_of (loop
      \<lparr>ENABLE_ADC_SLEEP = False, ROOMBA_650_SLEEP_FIX = False\<rparr>
      \<lparr>millis_loop = 20002, connected = True, connect_ok = True, battery_low = False,
       polled = \<lparr>received = False, roombaPacket = replicate 100 0, packetLength = 0\<rparr>,
       millis_parse = 20002\<rparr>
      (globals_init\<lparr>lastStateMsgTime := 10001, roombaState :=
         RoombaState_zero\<lparr>current := 0xFE0C, charge := 2000, capacity := 2600, cleaning := True,
                          timestamp := 5000, sent := True\<rparr>\<rparr>)))
   \<and> readSensorPacket
        \<lparr>received = True, roombaPacket = [23, 0xFE, 0x0C] @ replicate 97 0, packetLength = 3\<rparr>
        20500
        (RoombaState_zero\<lparr>current := 0xFE0C, charge := 2000, capacity := 2600, cleaning := True,
                          timestamp := 5000, sent := True\<rparr>)
      = Some (RoombaState_zero\<lparr>current := 0xFE0C, cleaning := True, timestamp := 20500\<rparr>)"
proof -
  let ?good = "\<lparr>received = True, roombaPacket = [23, 0xFE, 0x0C] @ replicate 97 0,
                packetLength = 3 :: 8 word\<rparr>"
  let ?cfg = "\<lparr>ENABLE_ADC_SLEEP = False, ROOMBA_650_SLEEP_FIX = False\<rparr>"
  let ?idle = "\<lparr>received = False, roombaPacket = replicate 100 0, packetLength = 0 :: 8 word\<rparr>"
  let ?bad = "\<lparr>received = True, roombaPacket = [5] @ replicate 99 0, packetLength = 1 :: 8 word\<rparr>"
  let ?env1 = "\<lparr>millis_loop = 10001, connected = True, connect_ok = True, battery_low = False,
       polled = ?idle, millis_parse = 10001\<rparr>"
  let ?env2 = "\<lparr>millis_loop = 20002, connected = True, connect_ok = True, battery_low = False,
       polled = ?idle, millis_parse = 20002\<rparr>"
  let ?env3 = "\<lparr>millis_loop = 30003, connected = True, connect_ok = True, battery_low = False,
       polled = ?bad, millis_parse = 30003\<rparr>"
  let ?st = "RoombaState_zero\<lparr>current := 0xFE0C, charge := 2000, capacity := 2600,
                cleaning := True, timestamp := 5000\<rparr>"
  let ?g = "globals_init\<lparr>roombaState := ?st\<rparr>"
  let ?g' = "globals_init\<lparr>lastStateMsgTime := 10001, roombaState := ?st\<lparr>sent := True\<rparr>\<rparr>"
  let ?ct = "''vacuum/roomba/command''"
  let ?evs = "[Loop ?env2, MqttMessage ?ct ''start'', DebugCommand ''stream'' None, Loop ?env3]"
  note eval = loop_def connect_block_def wake_block_def publish_block_def sendStatus_def
                  c_div_def sleepIfNecessary_def readSensorPacket_def globals_init_def
                  RoombaState_zero_def Let_def
  have first: "published (actions_of (loop ?cfg ?env1 ?g))
    = [\<lparr>battery_level = 76, json_cleaning = True, json_docked = False, charging = False,
        json_voltage = 0, json_current = - 500, json_charge = 2000, json_state = ''cleaning''\<rparr>]"
    by (simp add: eval)
  have ne: "published (actions_of (loop ?cfg ?env1 ?g)) \<noteq> []"
    unfolding first by simp
  have age: "sample_age 10001 ?st = 5001"
    by (simp add: sample_age_def RoombaState_zero_def)
  have young: "sample_age (millis_loop ?env1) (roombaState ?g) < 2 ^ 31"
    by (simp add: sample_age_def RoombaState_zero_def)
  have def1: "loop ?cfg ?env1 ?g \<noteq> Undefined" by (simp add: eval)
  have def2: "loop ?cfg ?env2 ?g' \<noteq> Undefined" by (simp add: eval)
  have up1: "fst (snd (connect_block ?env1 ?g))" by (simp add: connect_block_def globals_init_def)
  have ota1: "\<not> OTAStarted ?g" and ota2: "\<not> OTAStarted ?g'" by (simp_all add: globals_init_def)
  have due1: "10000 < sint (millis_loop ?env1 - lastStateMsgTime ?g)"
    and fresh1: "\<not> 30000 < sint (millis_loop ?env1 - timestamp (roombaState ?g))"
    and unsent1: "\<not> sent (roombaState ?g)" and cap1: "capacity (roombaState ?g) \<noteq> 0"
    by (simp_all add: globals_init_def RoombaState_zero_def)
  have due2: "10000 < sint (millis_loop ?env2 - lastStateMsgTime ?g')"
    by (simp add: globals_init_def)
  have s: "sent (roombaState ?g')" by simp
  have rej: "parseRoombaStateFromStreamPacket ([5] @ replicate 99 0) 1 30003 RoombaState_zero
               = Some (False, RoombaState_zero\<lparr>timestamp := 30003\<rparr>)"
    by (simp add: parseRoombaStateFromStreamPacket_def parse_loop.simps decode_entry_def
                  read_byte_def)
  have q: "\<forall>ev \<in> set ?evs. quiet ev"
    using rej by simp
  have good: "parseRoombaStateFromStreamPacket ([23, 0xFE, 0x0C] @ replicate 97 0) 3 20500
                RoombaState_zero
               = Some (True, RoombaState_zero\<lparr>timestamp := 20500, current := 0xFE0C\<rparr>)"
    by (simp add: parseRoombaStateFromStreamPacket_def parse_loop.simps decode_entry_def
                  read_be16_def read_byte_def be16_def)
  have rcv: "received ?good \<and> parseRoombaStateFromStreamPacket (roombaPacket ?good)
               (uint (packetLength ?good)) 20500 RoombaState_zero
             = Some (True, RoombaState_zero\<lparr>timestamp := 20500, current := 0xFE0C\<rparr>)"
    using good by simp
  have dec: "readSensorPacket ?good 20500 (?st\<lparr>sent := True\<rparr>)
      = Some (RoombaState_zero\<lparr>current := 0xFE0C, cleaning := True, timestamp := 20500\<rparr>)"
    using good by (simp add: readSensorPacket_def estimate_def Let_def RoombaState_zero_def)
  note unsent_instance = sent_sample_is_not_republished
         [where cfg = ?cfg and env = ?env1 and g = ?g and link = True and evs = "[]"
            and ct = ?ct and p = ?good and now = 20500
            and rs = "RoombaState_zero\<lparr>timestamp := 20500, current := 0xFE0C\<rparr>"
            and st = "?st\<lparr>sent := True\<rparr>"]
  note sent_instance = sent_sample_is_not_republished
         [where cfg = ?cfg and env = ?env2 and g = ?g' and link = True and evs = ?evs
            and ct = ?ct and p = ?idle and now = 0 and rs = RoombaState_zero
            and st = RoombaState_zero]
  from unsent_instance ne young ota1 due1 fresh1 unsent1 cap1 up1 def1 rcv
  have a: "sample_age (millis_loop ?env1) (roombaState ?g) \<le> 30000
           \<and> length (published (actions_of (loop ?cfg ?env1 ?g))) = 1
           \<and> length (published (actions_of (publish_block ?cfg ?env1 True ?g))) = 1
           \<and> (\<exists>st'. readSensorPacket ?good 20500 (?st\<lparr>sent := True\<rparr>) = Some st' \<and> \<not> sent st')"
    by blast
  from sent_instance q s due2 ota2 def2
  have b: "published (actions_of (run ?cfg ?ct ?evs ?g')) = []
           \<and> Roomba_stream sensors \<in> set (actions_of (loop ?cfg ?env2 ?g'))
           \<and> Roomba_stream sensors \<in> set (actions_of (publish_block ?cfg ?env2 True ?g'))"
    by blast
  from a b first age dec show ?thesis by simp
qed

end
